theory Spec2Isabelle
  imports Complex_Main
begin

section \<open>Python values used by the ledger\<close>

subsection \<open>Floats\<close>

text \<open>
  A Python \<open>float\<close> is an IEEE double. A finite double is a rational number, so amounts
  are values of type \<open>rat\<close>, and every float operation of the source is the exact
  operation followed by \<open>fl\<close>, rounding to the nearest number with a 53-bit mantissa
  (ties to even). An amount is a finite double: \<open>float('inf')\<close> and \<open>float('nan')\<close>
  are not values of the type. \<open>fl\<close> rounds as if the exponent had no upper limit; the
  result of an operation that is infinite in IEEE arithmetic is told by \<open>overflows\<close>, and
  the operations that can reach it test it. Below the smallest normal double \<open>fl\<close> keeps
  53 bits where IEEE keeps fewer; the sums of this program are exact there, and its
  products are truncated to 0 by \<open>int\<close> on both sides.
\<close>

fun bit_length :: "nat \<Rightarrow> nat" where
  "bit_length n = (if n = 0 then 0 else Suc (bit_length (n div 2)))"

declare bit_length.simps [simp del]

definition pow2 :: "int \<Rightarrow> rat" where
  "pow2 e = (if 0 \<le> e then 2 ^ nat e else 1 / 2 ^ nat (- e))"

text \<open>The binary exponent of a positive rational: \<open>pow2 e \<le> a < pow2 (e + 1)\<close>.\<close>

definition binexp :: "rat \<Rightarrow> int" where
  "binexp a =
     (if 1 \<le> a then int (bit_length (nat \<lfloor>a\<rfloor>)) - 1
      else let k = int (bit_length (nat \<lfloor>1 / a\<rfloor>)) - 1
           in if 1 / a = pow2 k then - k else - (k + 1))"

definition round_half_even :: "rat \<Rightarrow> int" where
  "round_half_even m =
     (let f = \<lfloor>m\<rfloor>; d = m - of_int f
      in if d < 1 / 2 then f else if 1 / 2 < d then f + 1
         else if even f then f else f + 1)"

definition fl :: "rat \<Rightarrow> rat" where
  "fl x =
     (if x = 0 then 0
      else let a = \<bar>x\<bar>; u = pow2 (binexp a - 52)
           in sgn x * of_int (round_half_even (a / u)) * u)"

definition fmul :: "rat \<Rightarrow> rat \<Rightarrow> rat" where
  "fmul a b = fl (a * b)"

definition fdiv :: "rat \<Rightarrow> rat \<Rightarrow> rat" where
  "fdiv a b = fl (a / b)"

definition fadd :: "rat \<Rightarrow> rat \<Rightarrow> rat" where
  "fadd a b = fl (a + b)"

text \<open>
  The exact result of an operation rounds to an infinity when it is at least half way
  from the largest double, \<open>2^1024 - 2^971\<close>, to \<open>2^1024\<close>.
\<close>

definition overflows :: "rat \<Rightarrow> bool" where
  "overflows x = (2 ^ 1024 - 2 ^ 970 \<le> \<bar>x\<bar>)"

text \<open>\<open>float(n)\<close> for an integer, as Python converts an \<open>int\<close> operand of a float operation.\<close>

definition float_of_int :: "int \<Rightarrow> rat" where
  "float_of_int n = fl (of_int n)"

text \<open>\<open>int(x)\<close> on a float truncates toward zero.\<close>

definition py_int :: "rat \<Rightarrow> int" where
  "py_int x = (if 0 \<le> x then \<lfloor>x\<rfloor> else \<lceil>x\<rceil>)"

subsection \<open>Decimal strings\<close>

definition digit_char :: "nat \<Rightarrow> char" where
  "digit_char d = char_of (48 + d)"

fun str_nat :: "nat \<Rightarrow> string" where
  "str_nat n = (if n < 10 then [digit_char n] else str_nat (n div 10) @ [digit_char (n mod 10)])"

declare str_nat.simps [simp del]

text \<open>\<open>str(i)\<close> for a Python \<open>int\<close>.\<close>

definition str_int :: "int \<Rightarrow> string" where
  "str_int i = (if i < 0 then CHR ''-'' # str_nat (nat (- i)) else str_nat (nat i))"

text \<open>\<open>s.zfill(w)\<close>: zeros on the left up to width \<open>w\<close>, after a leading sign.\<close>

definition zfill :: "nat \<Rightarrow> string \<Rightarrow> string" where
  "zfill w s =
     (if w \<le> length s then s
      else case s of
             c # cs \<Rightarrow>
               if c = CHR ''+'' \<or> c = CHR ''-'' then c # replicate (w - length s) CHR ''0'' @ cs
               else replicate (w - length s) CHR ''0'' @ s
           | [] \<Rightarrow> replicate w CHR ''0'')"

text \<open>The value of a digit string, used to read a code back.\<close>

definition digit_val :: "char \<Rightarrow> nat" where
  "digit_val c = of_char c - 48"

definition nat_of_digits :: "string \<Rightarrow> nat" where
  "nat_of_digits s = foldl (\<lambda>a c. 10 * a + digit_val c) 0 s"

definition is_digit :: "char \<Rightarrow> bool" where
  "is_digit c = (48 \<le> (of_char c :: nat) \<and> (of_char c :: nat) \<le> 57)"

subsection \<open>Library functions\<close>

text \<open>
  Functions of the Python library and of SQLite that the program calls and that are not
  part of the repository are parameters of the model:
  \<^item> \<open>md5_hexdigest s\<close> is \<open>hashlib.md5(s.encode()).hexdigest()\<close>;
  \<^item> \<open>float_of_str s\<close> is \<open>float(s)\<close> on a string that denotes a finite number,
    \<open>None\<close> where it raises ValueError;
  \<^item> \<open>real_text x\<close> is the text SQLite compares a bound REAL with in a TEXT column.
\<close>

record pylib =
  md5_hexdigest :: "string \<Rightarrow> string"
  float_of_str :: "string \<Rightarrow> rat option"
  real_text :: "rat \<Rightarrow> string"

section \<open>Settings\<close>

text \<open>\<open>LOYALTY_SETTINGS\<close>. The doubles \<open>0.05\<close> and \<open>0.01\<close> are written as the rationals they are.\<close>

definition points_per_purchase :: rat where
  "points_per_purchase = 3602879701896397 / 72057594037927936"

definition discount_per_point :: rat where
  "discount_per_point = 5764607523034235 / 576460752303423488"

definition max_discount :: int where
  "max_discount = 50"

definition welcome_bonus :: int where
  "welcome_bonus = 100"

section \<open>The database\<close>

text \<open>
  The two tables of \<open>init_database\<close>. The timestamp columns are left out: no operation
  reads them for a decision. The counters are the AUTOINCREMENT sequences: the largest
  key ever given out.

  An INTEGER of SQLite has 64 bits. \<open>total_points\<close> and \<open>current_points\<close> hold the
  number the column holds: an INTEGER within 64 bits, or, after a sum has left that
  range, the REAL that SQLite stores in its place, which is a whole number out of the
  range. A REAL that a later sum brings back into the range is stored as an INTEGER
  again. The one REAL the record does not tell from an INTEGER is \<open>-2^63\<close>, which a
  sum below the range can round to: it is read as the INTEGER.
\<close>

record user =
  user_id :: int
  telegram_id :: int
  name :: "string option"
  phone :: "string option"
  gender :: "string option"
  total_purchases :: rat
  total_points :: int
  current_points :: int
  qr_code :: "string option"
  is_active :: bool

datatype txn_type = Bonus | Purchase | Spend | Admin

text \<open>
  The description column holds a formatted text; the model keeps the values the source
  formats into it.
\<close>

datatype descr =
    Registration_bonus
  | Purchase_via_evotor rat
  | Purchase_note rat
  | Spend_note int rat
  | Note string

record txn =
  transaction_id :: int
  t_user_id :: int
  t_type :: txn_type
  amount :: "rat option"
  points_change :: int
  description :: descr

record db =
  users :: "user list"
  transactions :: "txn list"
  users_seq :: int
  transactions_seq :: int

definition init_database :: db where
  "init_database = \<lparr>users = [], transactions = [], users_seq = 0, transactions_seq = 0\<rparr>"

datatype error = TypeError | IntegrityError | AttributeError | BindError | OverflowError

text \<open>
  The integers \<open>sqlite3\<close> binds to a \<open>?\<close>; for any other it raises OverflowError
  before the statement runs.
\<close>

definition in_int64 :: "int \<Rightarrow> bool" where
  "in_int64 n = (- (2 ^ 63) \<le> n \<and> n < 2 ^ 63)"

text \<open>
  \<open>column + ?\<close> on an INTEGER column: the sum of two INTEGERs within 64 bits, and
  otherwise the sum of the two numbers as doubles.
\<close>

definition sql_add :: "int \<Rightarrow> int \<Rightarrow> int" where
  "sql_add v y =
     (if in_int64 v \<and> in_int64 (v + y) then v + y
      else \<lfloor>fl (fl (of_int v) + fl (of_int y))\<rfloor>)"

text \<open>\<open>INSERT INTO transactions\<close>: the next key, the row at the end of the table.\<close>

definition insert_transaction :: "int \<Rightarrow> txn_type \<Rightarrow> rat option \<Rightarrow> int \<Rightarrow> descr \<Rightarrow> db \<Rightarrow> db" where
  "insert_transaction uid ty am pc de d =
     d\<lparr>transactions := transactions d @
          [\<lparr>transaction_id = transactions_seq d + 1, t_user_id = uid, t_type = ty,
            amount = am, points_change = pc, description = de\<rparr>],
       transactions_seq := transactions_seq d + 1\<rparr>"

text \<open>\<open>UPDATE users SET ... WHERE\<close>: every row the condition selects is rewritten.\<close>

definition update_users :: "(user \<Rightarrow> bool) \<Rightarrow> (user \<Rightarrow> user) \<Rightarrow> db \<Rightarrow> db" where
  "update_users c f d = d\<lparr>users := map (\<lambda>u. if c u then f u else u) (users d)\<rparr>"

text \<open>\<open>SELECT ... WHERE\<close> followed by \<open>fetchone()\<close>: the first row selected, or \<open>None\<close>.\<close>

definition select_user :: "(user \<Rightarrow> bool) \<Rightarrow> db \<Rightarrow> user option" where
  "select_user c d = find c (users d)"

section \<open>LoyaltyDB\<close>

definition generate_qr_code :: "pylib \<Rightarrow> int \<Rightarrow> string" where
  "generate_qr_code lib uid =
     zfill 3 (str_int uid) @ ''-'' @ take 3 (md5_hexdigest lib (str_int uid))"

text \<open>
  \<open>add_user\<close>. The second \<open>UPDATE\<close> writes the code into a UNIQUE column: a code another
  row holds raises IntegrityError, and the connection's context manager rolls the
  insertion back. The \<open>telegram_id\<close> is one that \<open>sqlite3\<close> binds, within 64 bits, as
  the ids of Telegram are.
\<close>

definition add_user ::
  "pylib \<Rightarrow> db \<Rightarrow> int \<Rightarrow> string option \<Rightarrow> string option \<Rightarrow> string option
     \<Rightarrow> db \<times> (error + int \<times> string)" where
  "add_user lib d tid nm ph ge =
     (case select_user (\<lambda>u. telegram_id u = tid) d of
        Some existing \<Rightarrow>
          (d, Inr (user_id existing,
                   (case qr_code existing of
                      Some q \<Rightarrow> if q \<noteq> [] then q else generate_qr_code lib (user_id existing)
                    | None \<Rightarrow> generate_qr_code lib (user_id existing))))
      | None \<Rightarrow>
          let uid = users_seq d + 1;
              row = \<lparr>user_id = uid, telegram_id = tid, name = nm, phone = ph, gender = ge,
                     total_purchases = 0, total_points = 0, current_points = welcome_bonus,
                     qr_code = None, is_active = True\<rparr>;
              d1 = d\<lparr>users := users d @ [row], users_seq := uid\<rparr>;
              qr = generate_qr_code lib uid
          in if \<exists>u \<in> set (users d1). user_id u \<noteq> uid \<and> qr_code u = Some qr
             then (d, Inl IntegrityError)
             else
               let d2 = update_users (\<lambda>u. user_id u = uid) (\<lambda>u. u\<lparr>qr_code := Some qr\<rparr>) d1;
                   d3 = insert_transaction uid Bonus None welcome_bonus Registration_bonus d2
               in (d3, Inr (uid, qr)))"

definition get_user_by_qr :: "db \<Rightarrow> string \<Rightarrow> user option" where
  "get_user_by_qr d qr = select_user (\<lambda>u. qr_code u = Some qr \<and> is_active u) d"

text \<open>
  \<open>add_purchase_by_qr\<close> returns \<open>None\<close> for an unknown code, else
  \<open>(telegram_id, earned, new_balance)\<close>. Points beyond 64 bits are not bound: the
  \<open>UPDATE\<close> raises OverflowError and nothing is written.
\<close>

definition add_purchase_by_qr :: "db \<Rightarrow> string \<Rightarrow> rat \<Rightarrow> db \<times> (error + (int \<times> int \<times> int) option)" where
  "add_purchase_by_qr d qr am =
     (case get_user_by_qr d qr of
        None \<Rightarrow> (d, Inr None)
      | Some row \<Rightarrow>
          let earned = py_int (fmul am points_per_purchase)
          in if \<not> in_int64 earned then (d, Inl OverflowError)
             else
               let d1 = update_users (\<lambda>u. qr_code u = Some qr)
                          (\<lambda>u. u\<lparr>total_purchases := fadd (total_purchases u) am,
                                 total_points := sql_add (total_points u) earned,
                                 current_points := sql_add (current_points u) earned\<rparr>) d;
                   d2 = insert_transaction (user_id row) Purchase (Some am) earned
                          (Purchase_via_evotor am) d1
               in (case select_user (\<lambda>u. user_id u = user_id row) d2 of
                     None \<Rightarrow> (d2, Inl TypeError)
                   | Some u \<Rightarrow> (d2, Inr (Some (telegram_id row, earned, current_points u)))))"

text \<open>
  \<open>add_purchase\<close>. Points or a \<open>user_id\<close> beyond 64 bits are not bound: the
  \<open>UPDATE\<close> raises OverflowError and nothing is written. It commits before it reads
  the new balance: where no row has the \<open>user_id\<close>, \<open>fetchone()\<close> is \<open>None\<close>, the
  subscript raises TypeError, and the transaction row stays.
\<close>

definition add_purchase :: "db \<Rightarrow> int \<Rightarrow> rat \<Rightarrow> db \<times> (error + int \<times> int)" where
  "add_purchase d uid am =
     (let points_earned = py_int (fmul am points_per_purchase)
      in if \<not> in_int64 points_earned \<or> \<not> in_int64 uid then (d, Inl OverflowError)
         else
           let d1 = update_users (\<lambda>u. user_id u = uid)
                      (\<lambda>u. u\<lparr>total_purchases := fadd (total_purchases u) am,
                             total_points := sql_add (total_points u) points_earned,
                             current_points := sql_add (current_points u) points_earned\<rparr>) d;
               d2 = insert_transaction uid Purchase (Some am) points_earned (Purchase_note am) d1
           in (case select_user (\<lambda>u. user_id u = uid) d2 of
                 None \<Rightarrow> (d2, Inl TypeError)
               | Some u \<Rightarrow> (d2, Inr (points_earned, current_points u))))"

text \<open>
  \<open>spend_points\<close>. \<open>purchase_amount\<close> is optional; \<open>if purchase_amount\<close> is false for
  \<open>None\<close> and for \<open>0.0\<close>. The result is \<open>(success, balance, discount)\<close>. The
  handlers pass a positive request of at most the balance and a positive amount, so
  that the points the statements bind are within 64 bits.
\<close>

definition truthy_amount :: "rat option \<Rightarrow> bool" where
  "truthy_amount pa = (case pa of None \<Rightarrow> False | Some a \<Rightarrow> a \<noteq> 0)"

text \<open>
  The bound of the clamp. A product or a quotient beyond the double range is an
  infinity, which stays one down to \<open>int\<close>: that raises OverflowError.
\<close>

definition max_points_for_discount :: "rat option \<Rightarrow> error + int" where
  "max_points_for_discount pa =
     (case pa of
        None \<Rightarrow> Inr 0
      | Some a \<Rightarrow>
          if a \<noteq> 0
          then if overflows (a * float_of_int max_discount) then Inl OverflowError
               else
                 let max_discount_amount =
                       fdiv (fmul a (float_of_int max_discount)) (float_of_int 100)
                 in if overflows (max_discount_amount / discount_per_point)
                    then Inl OverflowError
                    else Inr (py_int (fdiv max_discount_amount discount_per_point))
          else Inr 0)"

text \<open>The clamp of the request to the bound, and the discount in percent.\<close>

definition clamp_points :: "int \<Rightarrow> rat option \<Rightarrow> int \<Rightarrow> int" where
  "clamp_points points_to_spend pa max_points =
     (if truthy_amount pa \<and> max_points < points_to_spend then max_points
      else points_to_spend)"

definition discount_for :: "int \<Rightarrow> rat option \<Rightarrow> rat" where
  "discount_for pts pa =
     (let discount = fmul (float_of_int pts) discount_per_point
      in if truthy_amount pa then min discount (of_int max_discount) else discount)"

definition spend_points ::
  "db \<Rightarrow> int \<Rightarrow> int \<Rightarrow> rat option \<Rightarrow> db \<times> (error + bool \<times> int \<times> rat)" where
  "spend_points d uid points_to_spend purchase_amount =
     (case select_user (\<lambda>u. user_id u = uid) d of
        None \<Rightarrow> (d, Inl TypeError)
      | Some row \<Rightarrow>
          if current_points row < points_to_spend then (d, Inr (False, current_points row, 0))
          else
            (case max_points_for_discount purchase_amount of
               Inl e \<Rightarrow> (d, Inl e)
             | Inr max_points \<Rightarrow>
                 let pts = clamp_points points_to_spend purchase_amount max_points;
                     discount = discount_for pts purchase_amount;
                     d1 = update_users (\<lambda>u. user_id u = uid)
                            (\<lambda>u. u\<lparr>current_points := current_points u - pts\<rparr>) d;
                     d2 = insert_transaction uid Spend None (- pts) (Spend_note pts discount) d1
                 in (case select_user (\<lambda>u. user_id u = uid) d2 of
                       None \<Rightarrow> (d2, Inl TypeError)
                     | Some u \<Rightarrow> (d2, Inr (True, current_points u, discount)))))"

text \<open>
  \<open>update_user_points\<close>. Points or a \<open>user_id\<close> beyond 64 bits are not bound: the
  \<open>UPDATE\<close> raises OverflowError inside the \<open>try\<close> block, nothing is written and the
  result is \<open>False\<close>. Otherwise no statement fails and the result is \<open>True\<close>.
\<close>

definition update_user_points :: "db \<Rightarrow> int \<Rightarrow> int \<Rightarrow> string \<Rightarrow> db \<times> bool" where
  "update_user_points d uid points de =
     (if \<not> in_int64 points \<or> \<not> in_int64 uid then (d, False)
      else
        let d1 = update_users (\<lambda>u. user_id u = uid)
                   (\<lambda>u. u\<lparr>current_points := sql_add (current_points u) points,
                          total_points := sql_add (total_points u) (max 0 points)\<rparr>) d;
            d2 = insert_transaction uid Admin None points (Note de) d1
        in (d2, True))"

section \<open>The webhook\<close>

text \<open>
  The payload is what \<open>request.json()\<close> returns: a JSON value. An object is the list of
  its members; a look-up takes the first member with the key. A number with a fraction or
  an exponent is a finite double: \<open>Infinity\<close>, \<open>NaN\<close> and a literal beyond the double
  range, which the parser reads as an infinity, are not values of the type.
\<close>

datatype json =
    JNull
  | JBool bool
  | JInt int
  | JFloat rat
  | JStr string
  | JArr "json list"
  | JObj "(string \<times> json) list"

text \<open>Python's truth value of a JSON value, as \<open>or\<close> and \<open>not\<close> test it.\<close>

fun truthy :: "json \<Rightarrow> bool" where
  "truthy JNull = False"
| "truthy (JBool b) = b"
| "truthy (JInt n) = (n \<noteq> 0)"
| "truthy (JFloat x) = (x \<noteq> 0)"
| "truthy (JStr s) = (s \<noteq> [])"
| "truthy (JArr xs) = (xs \<noteq> [])"
| "truthy (JObj kvs) = (kvs \<noteq> [])"

text \<open>
  \<open>x.get(k)\<close>: \<open>None\<close> for a key the dict does not have; AttributeError where \<open>x\<close>
  is not a dict.
\<close>

fun py_get :: "json \<Rightarrow> string \<Rightarrow> error + json" where
  "py_get (JObj kvs) k = Inr (case map_of kvs k of None \<Rightarrow> JNull | Some v \<Rightarrow> v)"
| "py_get _ k = Inl AttributeError"

text \<open>\<open>x.get(k) or rest\<close>.\<close>

definition get_or :: "json \<Rightarrow> string \<Rightarrow> error + json \<Rightarrow> error + json" where
  "get_or x k rest =
     (case py_get x k of Inl e \<Rightarrow> Inl e | Inr v \<Rightarrow> if truthy v then Inr v else rest)"

definition find_receipt :: "json \<Rightarrow> error + json" where
  "find_receipt data = get_or data ''document'' (get_or data ''receipt'' (Inr data))"

definition find_total :: "json \<Rightarrow> error + json" where
  "find_total receipt =
     get_or receipt ''total'' (get_or receipt ''sum'' (py_get receipt ''amount''))"

definition find_extra :: "json \<Rightarrow> error + json" where
  "find_extra receipt =
     get_or receipt ''extra'' (get_or receipt ''additional'' (Inr (JObj [])))"

definition find_qr_code :: "json \<Rightarrow> json \<Rightarrow> json \<Rightarrow> error + json" where
  "find_qr_code data receipt extra =
     (case get_or extra ''clientCode'' (get_or extra ''qrCode'' (py_get data ''clientCode'')) of
        Inl e \<Rightarrow> Inl e
      | Inr code \<Rightarrow>
          if \<not> truthy code
          then get_or receipt ''clientCode'' (py_get data ''clientCode'')
          else Inr code)"

text \<open>
  \<open>float(total)\<close>; \<open>None\<close> where it raises: TypeError on what is no number and no
  string, ValueError on a string, OverflowError on an integer beyond the double range.
\<close>

fun py_float :: "pylib \<Rightarrow> json \<Rightarrow> rat option" where
  "py_float lib (JBool b) = Some (if b then 1 else 0)"
| "py_float lib (JInt n) = (if overflows (of_int n) then None else Some (float_of_int n))"
| "py_float lib (JFloat x) = Some x"
| "py_float lib (JStr s) = float_of_str lib s"
| "py_float lib _ = None"

text \<open>
  A value bound to the \<open>?\<close> of \<open>WHERE qr_code = ?\<close>. SQLite compares a number with the
  TEXT column as text; \<open>sqlite3\<close> refuses to bind a list or a dict, and raises
  OverflowError on an integer beyond 64 bits.
\<close>

datatype sql_param = Text string | Null | Unsupported | Too_large

fun bind_param :: "pylib \<Rightarrow> json \<Rightarrow> sql_param" where
  "bind_param lib JNull = Null"
| "bind_param lib (JBool b) = Text (if b then ''1'' else ''0'')"
| "bind_param lib (JInt n) = (if in_int64 n then Text (str_int n) else Too_large)"
| "bind_param lib (JFloat x) = Text (real_text lib x)"
| "bind_param lib (JStr s) = Text s"
| "bind_param lib _ = Unsupported"

text \<open>
  The dict the handler returns: its status, and the points and balance or the message.
  \<open>Exception_response\<close> is the result of the outer \<open>except\<close>, whose message is the text
  of the exception.
\<close>

datatype response =
    Ok_response int int
  | Ignored string
  | Error_response string
  | Not_found string
  | Exception_response error

fun status :: "response \<Rightarrow> string" where
  "status (Ok_response p b) = ''ok''"
| "status (Ignored m) = ''ignored''"
| "status (Error_response m) = ''error''"
| "status (Not_found m) = ''not_found''"
| "status (Exception_response e) = ''error''"

text \<open>The four look-ups of the handler, in its order; the first that raises ends them.\<close>

definition extract_fields :: "json \<Rightarrow> error + json \<times> json" where
  "extract_fields data =
     (case find_receipt data of
        Inl e \<Rightarrow> Inl e
      | Inr receipt \<Rightarrow>
          (case find_total receipt of
             Inl e \<Rightarrow> Inl e
           | Inr tot \<Rightarrow>
               (case find_extra receipt of
                  Inl e \<Rightarrow> Inl e
                | Inr extra \<Rightarrow>
                    (case find_qr_code data receipt extra of
                       Inl e \<Rightarrow> Inl e
                     | Inr code \<Rightarrow> Inr (code, tot)))))"

text \<open>
  \<open>evotor_webhook\<close>, from the parsed payload on. The notification it sends after a
  purchase is recorded changes nothing here: its failure is caught and logged.
\<close>

definition evotor_webhook :: "pylib \<Rightarrow> db \<Rightarrow> json \<Rightarrow> db \<times> response" where
  "evotor_webhook lib d data =
     (case extract_fields data of
        Inl e \<Rightarrow> (d, Exception_response e)
      | Inr (code, tot) \<Rightarrow>
          if \<not> truthy code \<or> \<not> truthy tot
          then (d, Ignored ''Missing QR code or total'')
          else
            (case py_float lib tot of
               None \<Rightarrow> (d, Error_response ''Invalid total format'')
             | Some total_float \<Rightarrow>
                 (case bind_param lib code of
                    Unsupported \<Rightarrow> (d, Exception_response BindError)
                  | Too_large \<Rightarrow> (d, Exception_response OverflowError)
                  | Null \<Rightarrow> (d, Not_found ''Client not found'')
                  | Text qr \<Rightarrow>
                      (case add_purchase_by_qr d qr total_float of
                         (d', Inl e) \<Rightarrow> (d', Exception_response e)
                       | (d', Inr None) \<Rightarrow> (d', Not_found ''Client not found'')
                       | (d', Inr (Some (telegram, earned, balance))) \<Rightarrow>
                           (d', Ok_response earned balance)))))"

section \<open>Histories of the ledger\<close>

text \<open>The sum of \<open>points_change\<close> over the transactions of one account.\<close>

definition ledger_sum :: "db \<Rightarrow> int \<Rightarrow> int" where
  "ledger_sum d uid =
     sum_list (map points_change (filter (\<lambda>t. t_user_id t = uid) (transactions d)))"

definition bonus_count :: "db \<Rightarrow> int \<Rightarrow> nat" where
  "bonus_count d uid =
     length (filter (\<lambda>t. t_type t = Bonus \<and> t_user_id t = uid) (transactions d))"

definition user_exists :: "db \<Rightarrow> int \<Rightarrow> bool" where
  "user_exists d uid = (\<exists>u \<in> set (users d). user_id u = uid)"

text \<open>A call of one of the five mutating methods, and the database it leaves.\<close>

datatype op =
    Add_user int "string option" "string option" "string option"
  | Add_purchase int rat
  | Add_purchase_by_qr string rat
  | Spend_points int int "rat option"
  | Update_user_points int int string

fun exec :: "pylib \<Rightarrow> db \<Rightarrow> op \<Rightarrow> db" where
  "exec lib d (Add_user tid nm ph ge) = fst (add_user lib d tid nm ph ge)"
| "exec lib d (Add_purchase uid am) = fst (add_purchase d uid am)"
| "exec lib d (Add_purchase_by_qr qr am) = fst (add_purchase_by_qr d qr am)"
| "exec lib d (Spend_points uid pts pa) = fst (spend_points d uid pts pa)"
| "exec lib d (Update_user_points uid pts de) = fst (update_user_points d uid pts de)"

fun run :: "pylib \<Rightarrow> db \<Rightarrow> op list \<Rightarrow> db" where
  "run lib d [] = d"
| "run lib d (x # xs) = run lib (exec lib d x) xs"

text \<open>
  The calls under which the ledger keeps its books. Where \<open>add_purchase\<close> or
  \<open>update_user_points\<close> writes, an account has the \<open>user_id\<close>: the handlers take it
  from a look-up. No number of points to spend and no amount to clamp against is
  negative: \<open>spend_points_handler\<close> and \<open>calculate_discount_handler\<close> refuse what is
  not positive. And the sums that an \<open>UPDATE\<close> stores stay within 64 bits.
\<close>

definition fits :: "db \<Rightarrow> (user \<Rightarrow> bool) \<Rightarrow> int \<Rightarrow> int \<Rightarrow> bool" where
  "fits d c dc dt =
     (\<forall>u \<in> set (users d).
        c u \<longrightarrow> in_int64 (current_points u + dc) \<and> in_int64 (total_points u + dt))"

fun accepted :: "db \<Rightarrow> op \<Rightarrow> bool" where
  "accepted d (Add_user tid nm ph ge) = True"
| "accepted d (Add_purchase uid am) =
     (in_int64 (py_int (fmul am points_per_purchase)) \<and> in_int64 uid \<longrightarrow>
        user_exists d uid \<and>
        fits d (\<lambda>u. user_id u = uid) (py_int (fmul am points_per_purchase))
          (py_int (fmul am points_per_purchase)))"
| "accepted d (Add_purchase_by_qr qr am) =
     (in_int64 (py_int (fmul am points_per_purchase)) \<longrightarrow>
        fits d (\<lambda>u. qr_code u = Some qr) (py_int (fmul am points_per_purchase))
          (py_int (fmul am points_per_purchase)))"
| "accepted d (Spend_points uid pts pa) =
     (0 \<le> pts \<and> (case pa of None \<Rightarrow> True | Some a \<Rightarrow> 0 \<le> a))"
| "accepted d (Update_user_points uid pts de) =
     (in_int64 pts \<and> in_int64 uid \<longrightarrow>
        user_exists d uid \<and> fits d (\<lambda>u. user_id u = uid) pts (max 0 pts))"

fun guarded :: "pylib \<Rightarrow> db \<Rightarrow> op list \<Rightarrow> bool" where
  "guarded lib d [] = True"
| "guarded lib d (x # xs) = (accepted d x \<and> guarded lib (exec lib d x) xs)"

text \<open>
  The calls that take no points an account does not have: no purchase of a negative
  amount, which earns negative points, and no adjustment by an administrator below zero.
  Neither is checked in the source: the webhook passes any amount that is not zero, and
  \<open>admin_add_points_handler\<close> any number.
\<close>

fun solvent_call :: "db \<Rightarrow> op \<Rightarrow> bool" where
  "solvent_call d (Add_purchase uid am) = (0 \<le> am)"
| "solvent_call d (Add_purchase_by_qr qr am) = (0 \<le> am)"
| "solvent_call d (Update_user_points uid pts de) =
     (\<forall>u \<in> set (users d). user_id u = uid \<longrightarrow> 0 \<le> current_points u + pts)"
| "solvent_call d x = True"

fun solvent :: "pylib \<Rightarrow> db \<Rightarrow> op list \<Rightarrow> bool" where
  "solvent lib d [] = True"
| "solvent lib d (x # xs) = (solvent_call d x \<and> solvent lib (exec lib d x) xs)"

text \<open>What every history keeps, whatever the calls.\<close>

definition wf :: "pylib \<Rightarrow> db \<Rightarrow> bool" where
  "wf lib d =
     (distinct (map user_id (users d)) \<and> 0 \<le> users_seq d \<and>
      (\<forall>u \<in> set (users d).
         0 < user_id u \<and> user_id u \<le> users_seq d \<and>
         qr_code u = Some (generate_qr_code lib (user_id u)) \<and>
         bonus_count d (user_id u) = 1) \<and>
      (\<forall>t \<in> set (transactions d). t_type t = Bonus \<longrightarrow> t_user_id t \<le> users_seq d))"

text \<open>What a history of accepted calls keeps, and a history of solvent calls.\<close>

definition ledger_inv :: "db \<Rightarrow> bool" where
  "ledger_inv d =
     ((\<forall>t \<in> set (transactions d). user_exists d (t_user_id t)) \<and>
      (\<forall>u \<in> set (users d).
         current_points u = ledger_sum d (user_id u) \<and>
         current_points u \<le> total_points u + welcome_bonus \<and>
         in_int64 (current_points u) \<and> in_int64 (total_points u)))"

definition no_debt :: "db \<Rightarrow> bool" where
  "no_debt d = (\<forall>u \<in> set (users d). 0 \<le> current_points u)"

section \<open>Sample values\<close>

text \<open>
  The library at the arguments the examples use: the MD5 digests of \<open>"1"\<close>, \<open>"2"\<close>
  and \<open>"3"\<close>, \<open>float("1500")\<close>, and \<open>float("abc")\<close>, which raises ValueError. No
  example depends on its other values.
\<close>

definition sample_md5 :: "string \<Rightarrow> string" where
  "sample_md5 s =
     (if s = ''1'' then ''c4ca4238a0b923820dcc509a6f75849b''
      else if s = ''2'' then ''c81e728d9d4c2f636f067f89cc14862c''
      else if s = ''3'' then ''eccbc87e4b5ce2fe28308fd9f2a7baf3''
      else ''d41d8cd98f00b204e9800998ecf8427e'')"

definition sample_float_of_str :: "string \<Rightarrow> rat option" where
  "sample_float_of_str s = (if s = ''1500'' then Some 1500 else None)"

definition sample_lib :: pylib where
  "sample_lib =
     \<lparr>md5_hexdigest = sample_md5, float_of_str = sample_float_of_str, real_text = (\<lambda>x. [])\<rparr>"

text \<open>The database after the first registration, of Telegram user 501.\<close>

definition anna :: user where
  "anna = \<lparr>user_id = 1, telegram_id = 501, name = Some ''Anna'', phone = None, gender = None,
            total_purchases = 0, total_points = 0, current_points = 100,
            qr_code = Some ''001-c4c'', is_active = True\<rparr>"

definition bonus_row :: txn where
  "bonus_row = \<lparr>transaction_id = 1, t_user_id = 1, t_type = Bonus, amount = None,
                 points_change = 100, description = Registration_bonus\<rparr>"

definition db_registered :: db where
  "db_registered =
     \<lparr>users = [anna], transactions = [bonus_row], users_seq = 1, transactions_seq = 1\<rparr>"

text \<open>Histories from the empty database.\<close>

definition shopping_history :: "op list" where
  "shopping_history =
     [Add_user 501 (Some ''Anna'') None None,
      Add_purchase 1 1500,
      Spend_points 1 50 (Some 1000),
      Update_user_points 1 (- 20) ''correction'',
      Add_purchase_by_qr ''001-c4c'' 200]"

definition db_balance_1000 :: db where
  "db_balance_1000 =
     run sample_lib init_database
       [Add_user 501 (Some ''Anna'') None None, Update_user_points 1 900 ''gift'']"


text \<open>The first account with \<open>is_active\<close> false; no method of the class writes that.\<close>

definition db_inactive :: db where
  "db_inactive = db_registered\<lparr>users := [anna\<lparr>is_active := False\<rparr>]\<rparr>"

section \<open>The balance invariant as the specification words it\<close>

definition balance_invariant :: "db \<Rightarrow> bool" where
  "balance_invariant d =
     (\<forall>u \<in> set (users d).
        0 \<le> current_points u \<and> current_points u \<le> total_points u \<and>
        current_points u = ledger_sum d (user_id u))"

section \<open>Properties\<close>

subsection \<open>Rules that evaluate the model on numerals\<close>

lemma bit_length_0: "bit_length 0 = 0"
  by (simp add: bit_length.simps)

lemma bit_length_Suc_0: "bit_length (Suc 0) = Suc 0"
  by (simp add: bit_length.simps [of "Suc 0"] bit_length_0)

lemma bit_length_numeral: "bit_length (numeral k) = Suc (bit_length (numeral k div 2))"
  by (simp add: bit_length.simps [of "numeral k"])

lemma floor_numeral_div: "\<lfloor>numeral a / numeral b :: rat\<rfloor> = numeral a div numeral b"
  using floor_divide_of_int_eq [of "numeral a" "numeral b", where ?'a = rat] by simp

lemma floor_neg_numeral_div: "\<lfloor>- (numeral a / numeral b) :: rat\<rfloor> = - numeral a div numeral b"
  using floor_divide_of_int_eq [of "- numeral a" "numeral b", where ?'a = rat] by simp

lemma ceiling_numeral_div: "\<lceil>numeral a / numeral b :: rat\<rceil> = - (- numeral a div numeral b)"
  using floor_neg_numeral_div [of a b] by (simp add: ceiling_def)

lemma ceiling_neg_numeral_div: "\<lceil>- (numeral a / numeral b) :: rat\<rceil> = - (numeral a div numeral b)"
  using floor_numeral_div [of a b] by (simp add: ceiling_def)

lemmas fl_eval =
  fl_def fmul_def fdiv_def fadd_def float_of_int_def py_int_def pow2_def binexp_def
  round_half_even_def Let_def bit_length_0 bit_length_Suc_0 bit_length_numeral
  overflows_def in_int64_def sql_add_def
  floor_numeral_div floor_neg_numeral_div ceiling_numeral_div ceiling_neg_numeral_div
  points_per_purchase_def discount_per_point_def max_discount_def


text \<open>The rounding on values whose doubles Python shows, two ties among them.\<close>

lemma fl_examples:
  "fl (1 / 10) = 3602879701896397 / 36028797018963968"
  "fadd (fl (1 / 10)) (fl (2 / 10)) = 1351079888211149 / 4503599627370496"
  "float_of_int 9007199254740993 = 9007199254740992"
  "float_of_int 9007199254740995 = 9007199254740996"
  "fdiv (fl (1 / 1000)) 3 = 6148914691236517 / 18446744073709551616"
  by (simp_all add: fl_eval)

lemma qr1: "generate_qr_code sample_lib 1 = ''001-c4c''"
  by code_simp

lemmas ledger_eval =
  add_user_def add_purchase_def add_purchase_by_qr_def spend_points_def update_user_points_def
  get_user_by_qr_def select_user_def update_users_def insert_transaction_def init_database_def
  welcome_bonus_def user_exists_def ledger_sum_def clamp_points_def discount_for_def
  truthy_amount_def max_points_for_discount_def fits_def


lemmas eval_cong =
  let_weak_cong option.case_cong_weak sum.case_cong_weak prod.case_cong_weak
  list.case_cong_weak

subsection \<open>The sample database is the one the program builds\<close>

lemma db_registered_run:
  "run sample_lib init_database [Add_user 501 (Some ''Anna'') None None] = db_registered"
  by code_simp

subsection \<open>Signs of float results\<close>

lemma pow2_pos: "0 < pow2 e"
  by (simp add: pow2_def)

lemma round_half_even_nonneg: "0 \<le> m \<Longrightarrow> 0 \<le> round_half_even m"
  by (simp add: round_half_even_def Let_def)

lemma fl_nonneg: "0 \<le> x \<Longrightarrow> 0 \<le> fl x"
  by (auto simp: fl_def Let_def pow2_pos less_imp_le round_half_even_nonneg
      intro!: mult_nonneg_nonneg)

lemma fmul_nonneg: "0 \<le> a \<Longrightarrow> 0 \<le> b \<Longrightarrow> 0 \<le> fmul a b"
  by (simp add: fmul_def fl_nonneg)

lemma fdiv_nonneg: "0 \<le> a \<Longrightarrow> 0 \<le> b \<Longrightarrow> 0 \<le> fdiv a b"
  by (simp add: fdiv_def fl_nonneg)

lemma float_of_int_nonneg: "0 \<le> n \<Longrightarrow> 0 \<le> float_of_int n"
  by (simp add: float_of_int_def fl_nonneg)

lemma py_int_nonneg: "0 \<le> x \<Longrightarrow> 0 \<le> py_int x"
  by (simp add: py_int_def)

lemma earned_nonneg: "0 \<le> am \<Longrightarrow> 0 \<le> py_int (fmul am points_per_purchase)"
  by (simp add: py_int_nonneg fmul_nonneg points_per_purchase_def)

lemma max_points_nonneg:
  assumes "max_points_for_discount pa = Inr mp"
    and "case pa of None \<Rightarrow> True | Some a \<Rightarrow> 0 \<le> a"
  shows "0 \<le> mp"
proof (cases pa)
  case None
  with assms show ?thesis by (simp add: max_points_for_discount_def)
next
  case (Some a)
  with assms(2) have a: "0 \<le> a" by simp
  have "0 \<le> py_int (fdiv (fdiv (fmul a (float_of_int max_discount)) (float_of_int 100))
                        discount_per_point)"
    using a
    by (intro py_int_nonneg fdiv_nonneg fmul_nonneg float_of_int_nonneg)
      (simp_all add: max_discount_def discount_per_point_def)
  with assms(1) Some show ?thesis
    by (auto simp: max_points_for_discount_def Let_def split: if_splits)
qed

subsection \<open>The public code\<close>

lemma of_char_digit_char: "d < 10 \<Longrightarrow> (of_char (digit_char d) :: nat) = 48 + d"
  by (simp add: digit_char_def)

lemma is_digit_digit_char: "d < 10 \<Longrightarrow> is_digit (digit_char d)"
  by (simp add: is_digit_def of_char_digit_char)

lemma digit_val_digit_char: "d < 10 \<Longrightarrow> digit_val (digit_char d) = d"
  by (simp add: digit_val_def of_char_digit_char)

lemma str_nat_digits: "c \<in> set (str_nat n) \<Longrightarrow> is_digit c"
proof (induction n arbitrary: c rule: str_nat.induct)
  case (1 n)
  show ?case
  proof (cases "n < 10")
    case True
    with "1.prems" show ?thesis
      by (simp add: str_nat.simps [of n] is_digit_digit_char)
  next
    case False
    with "1.prems" "1.IH" show ?thesis
      by (auto simp: str_nat.simps [of n] is_digit_digit_char)
  qed
qed

lemma str_nat_nonempty: "str_nat n \<noteq> []"
  by (simp add: str_nat.simps [of n])

lemma nat_of_digits_snoc: "nat_of_digits (s @ [c]) = 10 * nat_of_digits s + digit_val c"
  by (simp add: nat_of_digits_def)

lemma nat_of_digits_str_nat: "nat_of_digits (str_nat n) = n"
proof (induction n rule: str_nat.induct)
  case (1 n)
  show ?case
  proof (cases "n < 10")
    case True
    then show ?thesis
      by (simp add: str_nat.simps [of n] nat_of_digits_def digit_val_digit_char)
  next
    case False
    with "1.IH" show ?thesis
      by (simp add: str_nat.simps [of n] nat_of_digits_snoc digit_val_digit_char)
  qed
qed

lemma foldl_zeros: "foldl (\<lambda>a c. 10 * a + digit_val c) 0 (replicate k CHR ''0'') = 0"
  by (induction k) (simp_all add: digit_val_def)

lemma nat_of_digits_zeros: "nat_of_digits (replicate k CHR ''0'' @ s) = nat_of_digits s"
  by (simp add: nat_of_digits_def foldl_zeros)

lemma zfill_str_nat: "zfill w (str_nat n) = replicate (w - length (str_nat n)) CHR ''0'' @ str_nat n"
proof (cases "str_nat n")
  case Nil
  then show ?thesis using str_nat_nonempty by simp
next
  case (Cons c cs)
  then have "is_digit c" using str_nat_digits [of c n] by simp
  then have "c \<noteq> CHR ''+''" "c \<noteq> CHR ''-''" by (auto simp: is_digit_def)
  with Cons show ?thesis by (simp add: zfill_def)
qed

lemma takeWhile_stop: "\<forall>c \<in> set z. P c \<Longrightarrow> \<not> P x \<Longrightarrow> takeWhile P (z @ x # r) = z"
  by (induction z) simp_all

lemma generate_qr_code_read:
  assumes "0 \<le> i"
  shows "nat_of_digits (takeWhile is_digit (generate_qr_code lib i)) = nat i"
proof -
  define z where "z = replicate (3 - length (str_nat (nat i))) CHR ''0'' @ str_nat (nat i)"
  define h where "h = take 3 (md5_hexdigest lib (str_int i))"
  have z: "\<forall>c \<in> set z. is_digit c"
    using str_nat_digits by (auto simp: z_def is_digit_def)
  have code: "generate_qr_code lib i = z @ CHR ''-'' # h"
    using assms by (simp add: generate_qr_code_def str_int_def zfill_str_nat z_def h_def)
  have "\<not> is_digit CHR ''-''" by (simp add: is_digit_def)
  with z have "takeWhile is_digit (z @ CHR ''-'' # h) = z"
    by (rule takeWhile_stop)
  with code have "takeWhile is_digit (generate_qr_code lib i) = z"
    by simp
  then show ?thesis
    by (simp add: z_def nat_of_digits_zeros nat_of_digits_str_nat)
qed

lemma generate_qr_code_inj:
  assumes "0 \<le> i" "0 \<le> j" "generate_qr_code lib i = generate_qr_code lib j"
  shows "i = j"
proof -
  have "nat i = nat j"
    using generate_qr_code_read [OF assms(1), of lib] generate_qr_code_read [OF assms(2), of lib] assms(3)
    by simp
  with assms show ?thesis by simp
qed

text \<open>
  Claim C8. \<open>generate_qr_code\<close> is a function of the account id (and of the digest
  function of the library): the same id gives the same code, and two positive ids that
  differ give codes that differ, so the codes of any run of sequential ids, of 10,000
  or more, are pairwise distinct.
\<close>

theorem generate_qr_code_same_iff:
  assumes "0 < i" and "0 < j"
  shows "(generate_qr_code lib i = generate_qr_code lib j) = (i = j)"
  using assms generate_qr_code_inj [of i j lib] by auto

theorem generate_qr_code_same_iff_witness:
  "(0::int) < 1 \<and> (0::int) < 2 \<and>
   generate_qr_code sample_lib 1 = ''001-c4c'' \<and>
   generate_qr_code sample_lib 2 = ''002-c81'' \<and>
   (generate_qr_code sample_lib 1 = generate_qr_code sample_lib 2) = ((1::int) = 2)"
proof -
  have a: "generate_qr_code sample_lib 1 = ''001-c4c''"
    by code_simp
  have b: "generate_qr_code sample_lib 2 = ''002-c81''"
    by code_simp
  show ?thesis
    using a b generate_qr_code_same_iff [of 1 2 sample_lib] by simp
qed

subsection \<open>What the operations keep\<close>

lemma select_user_SomeD: "select_user c d = Some u \<Longrightarrow> u \<in> set (users d) \<and> c u"
  by (auto simp: select_user_def find_Some_iff)

lemma select_user_None_iff: "select_user c d = None \<longleftrightarrow> (\<forall>u \<in> set (users d). \<not> c u)"
  by (auto simp: select_user_def find_None_iff)

lemma update_users_fields:
  "users (update_users c f d) = map (\<lambda>u. if c u then f u else u) (users d)"
  "transactions (update_users c f d) = transactions d"
  "users_seq (update_users c f d) = users_seq d"
  "transactions_seq (update_users c f d) = transactions_seq d"
  by (simp_all add: update_users_def)

lemma insert_transaction_fields:
  "users (insert_transaction uid ty am pc de d) = users d"
  "transactions (insert_transaction uid ty am pc de d) =
     transactions d @ [\<lparr>transaction_id = transactions_seq d + 1, t_user_id = uid, t_type = ty,
            amount = am, points_change = pc, description = de\<rparr>]"
  "users_seq (insert_transaction uid ty am pc de d) = users_seq d"
  "transactions_seq (insert_transaction uid ty am pc de d) = transactions_seq d + 1"
  by (simp_all add: insert_transaction_def)

lemma ledger_sum_insert_transaction:
  "ledger_sum (insert_transaction uid ty am pc de d) x = ledger_sum d x + (if x = uid then pc else 0)"
  by (simp add: ledger_sum_def insert_transaction_fields)

lemma ledger_sum_update_users: "ledger_sum (update_users c f d) x = ledger_sum d x"
  by (simp add: ledger_sum_def update_users_fields)

lemma bonus_count_insert_transaction:
  "bonus_count (insert_transaction uid ty am pc de d) x =
     bonus_count d x + (if ty = Bonus \<and> uid = x then 1 else 0)"
  by (simp add: bonus_count_def insert_transaction_fields)

lemma bonus_count_update_users: "bonus_count (update_users c f d) x = bonus_count d x"
  by (simp add: bonus_count_def update_users_fields)

lemma user_exists_insert_transaction:
  "user_exists (insert_transaction uid ty am pc de d) x = user_exists d x"
  by (simp add: user_exists_def insert_transaction_fields)

lemma user_exists_update_users:
  assumes "\<And>u. user_id (f u) = user_id u"
  shows "user_exists (update_users c f d) x = user_exists d x"
  using assms by (auto simp: user_exists_def update_users_fields)

lemma user_id_comp_update:
  assumes "\<And>u. user_id (f u) = user_id u"
  shows "user_id \<circ> (\<lambda>u. if c u then f u else u) = user_id"
  using assms by (auto simp: fun_eq_iff)

lemma wf_delta:
  assumes "wf lib d" and "ty \<noteq> Bonus"
    and "\<And>u. user_id (f u) = user_id u" and "\<And>u. qr_code (f u) = qr_code u"
  shows "wf lib (insert_transaction uid ty am pc de (update_users c f d))"
  using assms
  unfolding wf_def
  by (auto simp: insert_transaction_fields update_users_fields user_id_comp_update
      bonus_count_insert_transaction bonus_count_update_users)

lemma ledger_inv_delta:
  assumes "ledger_inv d" and "user_exists d uid"
    and id: "\<And>u. user_id (f u) = user_id u"
    and step: "\<And>u. u \<in> set (users d) \<Longrightarrow> user_id u = uid \<Longrightarrow>
           current_points (f u) = current_points u + pc \<and>
           current_points (f u) \<le> total_points (f u) + welcome_bonus \<and>
           in_int64 (current_points (f u)) \<and> in_int64 (total_points (f u))"
  shows "ledger_inv (insert_transaction uid ty am pc de (update_users (\<lambda>u. user_id u = uid) f d))"
proof -
  let ?d' = "insert_transaction uid ty am pc de (update_users (\<lambda>u. user_id u = uid) f d)"
  have ex: "\<And>x. user_exists ?d' x = user_exists d x"
    by (simp add: user_exists_insert_transaction user_exists_update_users id)
  have a: "\<forall>t \<in> set (transactions ?d'). user_exists ?d' (t_user_id t)"
    using assms(1,2) unfolding ex
    by (auto simp: ledger_inv_def insert_transaction_fields update_users_fields)
  have b: "current_points v = ledger_sum ?d' (user_id v) \<and>
           current_points v \<le> total_points v + welcome_bonus \<and>
           in_int64 (current_points v) \<and> in_int64 (total_points v)"
    if "v \<in> set (users ?d')" for v
  proof -
    from that obtain u where u: "u \<in> set (users d)"
      and v: "v = (if user_id u = uid then f u else u)"
      by (auto simp: insert_transaction_fields update_users_fields)
    from assms(1) u have old: "current_points u = ledger_sum d (user_id u)"
      "current_points u \<le> total_points u + welcome_bonus"
      "in_int64 (current_points u)" "in_int64 (total_points u)"
      by (auto simp: ledger_inv_def)
    show ?thesis
    proof (cases "user_id u = uid")
      case True
      with step [OF u True] old v id show ?thesis
        by (auto simp: ledger_sum_insert_transaction ledger_sum_update_users)
    next
      case False
      with old v show ?thesis
        by (simp add: ledger_sum_insert_transaction ledger_sum_update_users)
    qed
  qed
  from a b show ?thesis
    unfolding ledger_inv_def by blast
qed

lemma no_debt_delta:
  assumes "no_debt d"
    and "\<And>u. u \<in> set (users d) \<Longrightarrow> c u \<Longrightarrow> 0 \<le> current_points (f u)"
  shows "no_debt (insert_transaction uid ty am pc de (update_users c f d))"
  using assms by (auto simp: no_debt_def insert_transaction_fields update_users_fields)

lemma sql_add_exact: "in_int64 v \<Longrightarrow> in_int64 (v + y) \<Longrightarrow> sql_add v y = v + y"
  by (simp add: sql_add_def)

lemma update_users_cong_fun:
  assumes "\<And>u. u \<in> set (users d) \<Longrightarrow> c u \<Longrightarrow> f u = g u"
  shows "update_users c f d = update_users c g d"
  using assms by (simp add: update_users_def cong: map_cong)

lemma fst_case_option: "fst (case x of None \<Rightarrow> (a, b) | Some u \<Rightarrow> (a, c u)) = a"
  by (cases x) simp_all

text \<open>The database a purchase leaves: the one it was given, or one update and one row.\<close>

lemma exec_add_purchase:
  "fst (add_purchase d uid am) =
     (if \<not> in_int64 (py_int (fmul am points_per_purchase)) \<or> \<not> in_int64 uid then d
      else insert_transaction uid Purchase (Some am) (py_int (fmul am points_per_purchase))
             (Purchase_note am)
             (update_users (\<lambda>u. user_id u = uid)
                (\<lambda>u. u\<lparr>total_purchases := fadd (total_purchases u) am,
                       total_points := sql_add (total_points u) (py_int (fmul am points_per_purchase)),
                       current_points :=
                         sql_add (current_points u) (py_int (fmul am points_per_purchase))\<rparr>) d))"
  by (simp add: add_purchase_def Let_def fst_case_option)

lemma exec_update_user_points:
  "fst (update_user_points d uid points de) =
     (if \<not> in_int64 points \<or> \<not> in_int64 uid then d
      else insert_transaction uid Admin None points (Note de)
             (update_users (\<lambda>u. user_id u = uid)
                (\<lambda>u. u\<lparr>current_points := sql_add (current_points u) points,
                       total_points := sql_add (total_points u) (max 0 points)\<rparr>) d))"
  by (simp add: update_user_points_def Let_def)

lemma wf_add_purchase: "wf lib d \<Longrightarrow> wf lib (fst (add_purchase d uid am))"
  unfolding exec_add_purchase by (auto intro!: wf_delta)

lemma wf_update_user_points: "wf lib d \<Longrightarrow> wf lib (fst (update_user_points d uid points de))"
  unfolding exec_update_user_points by (auto intro!: wf_delta)

text \<open>Within 64 bits the sums of an update are the sums of the integers.\<close>

lemma update_exact:
  assumes "ledger_inv d" and "fits d c dc dt"
  shows "update_users c
           (\<lambda>u. u\<lparr>total_purchases := g u, total_points := sql_add (total_points u) dt,
                  current_points := sql_add (current_points u) dc\<rparr>) d =
         update_users c
           (\<lambda>u. u\<lparr>total_purchases := g u, total_points := total_points u + dt,
                  current_points := current_points u + dc\<rparr>) d"
proof (rule update_users_cong_fun)
  fix u assume u: "u \<in> set (users d)" and c: "c u"
  from assms(1) u have "in_int64 (current_points u)" "in_int64 (total_points u)"
    by (auto simp: ledger_inv_def)
  moreover from assms(2) u c
  have "in_int64 (current_points u + dc)" "in_int64 (total_points u + dt)"
    by (auto simp: fits_def)
  ultimately show "u\<lparr>total_purchases := g u, total_points := sql_add (total_points u) dt,
                  current_points := sql_add (current_points u) dc\<rparr> =
         u\<lparr>total_purchases := g u, total_points := total_points u + dt,
                  current_points := current_points u + dc\<rparr>"
    by (simp add: sql_add_exact)
qed

lemma ledger_inv_add_purchase:
  assumes "ledger_inv d" and "accepted d (Add_purchase uid am)"
  shows "ledger_inv (fst (add_purchase d uid am))"
proof (cases "in_int64 (py_int (fmul am points_per_purchase)) \<and> in_int64 uid")
  case False
  with assms(1) show ?thesis by (auto simp: exec_add_purchase)
next
  case True
  with assms(2) have ex: "user_exists d uid"
    and fit: "fits d (\<lambda>u. user_id u = uid) (py_int (fmul am points_per_purchase))
                (py_int (fmul am points_per_purchase))"
    by simp_all
  have "ledger_inv (insert_transaction uid Purchase (Some am) (py_int (fmul am points_per_purchase))
             (Purchase_note am)
             (update_users (\<lambda>u. user_id u = uid)
                (\<lambda>u. u\<lparr>total_purchases := fadd (total_purchases u) am,
                       total_points := total_points u + py_int (fmul am points_per_purchase),
                       current_points := current_points u + py_int (fmul am points_per_purchase)\<rparr>) d))"
    using assms(1) ex fit
    by (intro ledger_inv_delta) (auto simp: ledger_inv_def fits_def)
  with True show ?thesis
    by (simp add: exec_add_purchase update_exact [OF assms(1) fit])
qed

lemma no_debt_add_purchase:
  assumes "ledger_inv d" and "no_debt d" and "accepted d (Add_purchase uid am)" and "0 \<le> am"
  shows "no_debt (fst (add_purchase d uid am))"
proof (cases "in_int64 (py_int (fmul am points_per_purchase)) \<and> in_int64 uid")
  case False
  with assms(2) show ?thesis by (auto simp: exec_add_purchase)
next
  case True
  with assms(3) have fit: "fits d (\<lambda>u. user_id u = uid) (py_int (fmul am points_per_purchase))
                (py_int (fmul am points_per_purchase))"
    by simp
  have "no_debt (insert_transaction uid Purchase (Some am) (py_int (fmul am points_per_purchase))
             (Purchase_note am)
             (update_users (\<lambda>u. user_id u = uid)
                (\<lambda>u. u\<lparr>total_purchases := fadd (total_purchases u) am,
                       total_points := total_points u + py_int (fmul am points_per_purchase),
                       current_points := current_points u + py_int (fmul am points_per_purchase)\<rparr>) d))"
    using assms(2) earned_nonneg [OF assms(4)]
    by (intro no_debt_delta) (auto simp: no_debt_def)
  with True show ?thesis
    by (simp add: exec_add_purchase update_exact [OF assms(1) fit])
qed

lemma distinct_user_id:
  "distinct (map user_id us) \<Longrightarrow> u \<in> set us \<Longrightarrow> v \<in> set us \<Longrightarrow> user_id u = user_id v \<Longrightarrow> u = v"
  by (meson distinct_map inj_on_eq_iff)

lemma wf_same_user:
  "wf lib d \<Longrightarrow> u \<in> set (users d) \<Longrightarrow> v \<in> set (users d) \<Longrightarrow> user_id u = user_id v \<Longrightarrow> u = v"
  unfolding wf_def using distinct_user_id by blast

lemma select_user_id:
  assumes "distinct (map user_id (users d))" and "u \<in> set (users d)"
  shows "select_user (\<lambda>v. user_id v = user_id u) d = Some u"
proof -
  obtain v where v: "select_user (\<lambda>v. user_id v = user_id u) d = Some v"
    using assms(2) by (cases "select_user (\<lambda>v. user_id v = user_id u) d")
      (auto simp: select_user_None_iff)
  then have "v \<in> set (users d)" "user_id v = user_id u"
    using select_user_SomeD by fastforce+
  with assms have "v = u"
    using distinct_user_id by blast
  with v show ?thesis by simp
qed

lemma update_points_exact:
  assumes "ledger_inv d" and "fits d c dc dt"
  shows "update_users c
           (\<lambda>u. u\<lparr>current_points := sql_add (current_points u) dc,
                  total_points := sql_add (total_points u) dt\<rparr>) d =
         update_users c
           (\<lambda>u. u\<lparr>current_points := current_points u + dc,
                  total_points := total_points u + dt\<rparr>) d"
proof (rule update_users_cong_fun)
  fix u assume u: "u \<in> set (users d)" and c: "c u"
  from assms(1) u have "in_int64 (current_points u)" "in_int64 (total_points u)"
    by (auto simp: ledger_inv_def)
  moreover from assms(2) u c
  have "in_int64 (current_points u + dc)" "in_int64 (total_points u + dt)"
    by (auto simp: fits_def)
  ultimately show "u\<lparr>current_points := sql_add (current_points u) dc,
                  total_points := sql_add (total_points u) dt\<rparr> =
         u\<lparr>current_points := current_points u + dc,
                  total_points := total_points u + dt\<rparr>"
    by (simp add: sql_add_exact)
qed

lemma ledger_inv_update_user_points:
  assumes "ledger_inv d" and "accepted d (Update_user_points uid points de)"
  shows "ledger_inv (fst (update_user_points d uid points de))"
proof (cases "in_int64 points \<and> in_int64 uid")
  case False
  with assms(1) show ?thesis by (auto simp: exec_update_user_points)
next
  case True
  with assms(2) have ex: "user_exists d uid"
    and fit: "fits d (\<lambda>u. user_id u = uid) points (max 0 points)"
    by simp_all
  have "ledger_inv (insert_transaction uid Admin None points (Note de)
             (update_users (\<lambda>u. user_id u = uid)
                (\<lambda>u. u\<lparr>current_points := current_points u + points,
                       total_points := total_points u + max 0 points\<rparr>) d))"
    using assms(1) ex fit
    by (intro ledger_inv_delta) (auto simp: ledger_inv_def fits_def)
  with True show ?thesis
    by (simp add: exec_update_user_points update_points_exact [OF assms(1) fit])
qed

lemma no_debt_update_user_points:
  assumes "ledger_inv d" and "no_debt d" and "accepted d (Update_user_points uid points de)"
    and "solvent_call d (Update_user_points uid points de)"
  shows "no_debt (fst (update_user_points d uid points de))"
proof (cases "in_int64 points \<and> in_int64 uid")
  case False
  with assms(2) show ?thesis by (auto simp: exec_update_user_points)
next
  case True
  with assms(3) have fit: "fits d (\<lambda>u. user_id u = uid) points (max 0 points)"
    by simp
  have "no_debt (insert_transaction uid Admin None points (Note de)
             (update_users (\<lambda>u. user_id u = uid)
                (\<lambda>u. u\<lparr>current_points := current_points u + points,
                       total_points := total_points u + max 0 points\<rparr>) d))"
    using assms(2,4)
    by (intro no_debt_delta) auto
  with True show ?thesis
    by (simp add: exec_update_user_points update_points_exact [OF assms(1) fit])
qed

lemma clamp_points_bounds:
  assumes "0 \<le> p" and "0 \<le> mp"
  shows "0 \<le> clamp_points p pa mp \<and> clamp_points p pa mp \<le> p"
  using assms by (simp add: clamp_points_def)

lemma clamp_points_le: "clamp_points p pa mp \<le> p"
  by (simp add: clamp_points_def)

lemma exec_spend_points:
  "fst (spend_points d uid p pa) =
     (case select_user (\<lambda>u. user_id u = uid) d of
        None \<Rightarrow> d
      | Some row \<Rightarrow>
          if current_points row < p then d
          else (case max_points_for_discount pa of
                  Inl e \<Rightarrow> d
                | Inr mp \<Rightarrow>
                    insert_transaction uid Spend None (- clamp_points p pa mp)
                      (Spend_note (clamp_points p pa mp) (discount_for (clamp_points p pa mp) pa))
                      (update_users (\<lambda>u. user_id u = uid)
                         (\<lambda>u. u\<lparr>current_points := current_points u - clamp_points p pa mp\<rparr>) d)))"
  by (simp add: spend_points_def Let_def fst_case_option split: option.splits sum.splits)

lemma wf_spend_points: "wf lib d \<Longrightarrow> wf lib (fst (spend_points d uid p pa))"
  unfolding exec_spend_points
  by (auto split: option.splits sum.splits intro!: wf_delta)

lemma ledger_inv_spend_points:
  assumes "wf lib d" and "ledger_inv d" and "accepted d (Spend_points uid p pa)"
  shows "ledger_inv (fst (spend_points d uid p pa))"
proof (cases "select_user (\<lambda>u. user_id u = uid) d")
  case None
  with assms(2) show ?thesis by (simp add: exec_spend_points)
next
  case (Some row)
  then have r: "row \<in> set (users d)" "user_id row = uid"
    using select_user_SomeD by fastforce+
  have same: "u = row" if "u \<in> set (users d)" "user_id u = uid" for u
    using that r wf_same_user [OF assms(1)] by blast
  have ex: "user_exists d uid"
    using r by (auto simp: user_exists_def)
  from assms(3) have p: "0 \<le> p" and pa: "case pa of None \<Rightarrow> True | Some a \<Rightarrow> 0 \<le> a"
    by (auto split: option.splits)
  from assms(2) r have row64: "in_int64 (current_points row)" "in_int64 (total_points row)"
    "current_points row \<le> total_points row + welcome_bonus"
    by (auto simp: ledger_inv_def)
  show ?thesis
  proof (cases "current_points row < p")
    case True
    with Some assms(2) show ?thesis by (simp add: exec_spend_points)
  next
    case False
    show ?thesis
    proof (cases "max_points_for_discount pa")
      case (Inl e)
      with Some False assms(2) show ?thesis by (simp add: exec_spend_points)
    next
      case (Inr mp)
      have cl: "0 \<le> clamp_points p pa mp" "clamp_points p pa mp \<le> p"
        using clamp_points_bounds [OF p max_points_nonneg [OF Inr pa]] by blast+
      have r64: "in_int64 (current_points row - clamp_points p pa mp)"
        using cl False row64(1) by (simp add: in_int64_def)
      have "ledger_inv (insert_transaction uid Spend None (- clamp_points p pa mp)
               (Spend_note (clamp_points p pa mp) (discount_for (clamp_points p pa mp) pa))
               (update_users (\<lambda>u. user_id u = uid)
                  (\<lambda>u. u\<lparr>current_points := current_points u - clamp_points p pa mp\<rparr>) d))"
        using assms(2) ex cl same r64 row64
        by (intro ledger_inv_delta) auto
      with Some False Inr show ?thesis by (simp add: exec_spend_points)
    qed
  qed
qed

lemma no_debt_spend_points:
  assumes "wf lib d" and "no_debt d"
  shows "no_debt (fst (spend_points d uid p pa))"
proof (cases "select_user (\<lambda>u. user_id u = uid) d")
  case None
  with assms(2) show ?thesis by (simp add: exec_spend_points)
next
  case (Some row)
  then have r: "row \<in> set (users d)" "user_id row = uid"
    using select_user_SomeD by fastforce+
  have same: "u = row" if "u \<in> set (users d)" "user_id u = uid" for u
    using that r wf_same_user [OF assms(1)] by blast
  show ?thesis
  proof (cases "current_points row < p")
    case True
    with Some assms(2) show ?thesis by (simp add: exec_spend_points)
  next
    case False
    show ?thesis
    proof (cases "max_points_for_discount pa")
      case (Inl e)
      with Some False assms(2) show ?thesis by (simp add: exec_spend_points)
    next
      case (Inr mp)
      have "no_debt (insert_transaction uid Spend None (- clamp_points p pa mp)
               (Spend_note (clamp_points p pa mp) (discount_for (clamp_points p pa mp) pa))
               (update_users (\<lambda>u. user_id u = uid)
                  (\<lambda>u. u\<lparr>current_points := current_points u - clamp_points p pa mp\<rparr>) d))"
        using assms(2) same False clamp_points_le [of p pa mp]
        by (intro no_debt_delta) auto
      with Some False Inr show ?thesis by (simp add: exec_spend_points)
    qed
  qed
qed

lemma exec_add_purchase_by_qr:
  "fst (add_purchase_by_qr d qr am) =
     (case get_user_by_qr d qr of
        None \<Rightarrow> d
      | Some row \<Rightarrow>
          if \<not> in_int64 (py_int (fmul am points_per_purchase)) then d
          else
            insert_transaction (user_id row) Purchase (Some am) (py_int (fmul am points_per_purchase))
              (Purchase_via_evotor am)
              (update_users (\<lambda>u. qr_code u = Some qr)
                 (\<lambda>u. u\<lparr>total_purchases := fadd (total_purchases u) am,
                        total_points := sql_add (total_points u) (py_int (fmul am points_per_purchase)),
                        current_points :=
                          sql_add (current_points u) (py_int (fmul am points_per_purchase))\<rparr>) d))"
  by (simp add: add_purchase_by_qr_def Let_def fst_case_option split: option.splits)

lemma wf_add_purchase_by_qr: "wf lib d \<Longrightarrow> wf lib (fst (add_purchase_by_qr d qr am))"
  unfolding exec_add_purchase_by_qr
  by (auto split: option.splits intro!: wf_delta)

lemma update_users_cong:
  assumes "\<And>u. u \<in> set (users d) \<Longrightarrow> c u = c' u"
  shows "update_users c f d = update_users c' f d"
  using assms by (simp add: update_users_def cong: map_cong)

lemma wf_qr_selects_id:
  assumes "wf lib d" and "get_user_by_qr d qr = Some row" and "u \<in> set (users d)"
  shows "(qr_code u = Some qr) = (user_id u = user_id row)"
proof -
  from assms(2) have r: "row \<in> set (users d)" "qr_code row = Some qr"
    using select_user_SomeD unfolding get_user_by_qr_def by fastforce+
  from assms(1) r(1) assms(3)
  have q: "qr_code row = Some (generate_qr_code lib (user_id row))" "0 \<le> user_id row"
    "qr_code u = Some (generate_qr_code lib (user_id u))" "0 \<le> user_id u"
    unfolding wf_def by force+
  show ?thesis
  proof
    assume "qr_code u = Some qr"
    with q r have "generate_qr_code lib (user_id u) = generate_qr_code lib (user_id row)"
      by simp
    with q show "user_id u = user_id row"
      using generate_qr_code_inj by blast
  next
    assume "user_id u = user_id row"
    then have "u = row"
      using wf_same_user [OF assms(1) assms(3) r(1)] by simp
    with r show "qr_code u = Some qr" by simp
  qed
qed

lemma add_purchase_by_qr_exact:
  assumes "wf lib d" and "ledger_inv d" and "get_user_by_qr d qr = Some row"
    and "in_int64 (py_int (fmul am points_per_purchase))"
    and "accepted d (Add_purchase_by_qr qr am)"
  shows "fst (add_purchase_by_qr d qr am) =
          insert_transaction (user_id row) Purchase (Some am) (py_int (fmul am points_per_purchase))
            (Purchase_via_evotor am)
            (update_users (\<lambda>u. user_id u = user_id row)
               (\<lambda>u. u\<lparr>total_purchases := fadd (total_purchases u) am,
                      total_points := total_points u + py_int (fmul am points_per_purchase),
                      current_points := current_points u + py_int (fmul am points_per_purchase)\<rparr>) d)"
proof -
  from assms(4,5)
  have "fits d (\<lambda>u. qr_code u = Some qr) (py_int (fmul am points_per_purchase))
               (py_int (fmul am points_per_purchase))"
    by simp
  then have fit: "fits d (\<lambda>u. user_id u = user_id row) (py_int (fmul am points_per_purchase))
               (py_int (fmul am points_per_purchase))"
    using wf_qr_selects_id [OF assms(1,3)] by (auto simp: fits_def)
  have "update_users (\<lambda>u. qr_code u = Some qr)
          (\<lambda>u. u\<lparr>total_purchases := fadd (total_purchases u) am,
                 total_points := sql_add (total_points u) (py_int (fmul am points_per_purchase)),
                 current_points :=
                   sql_add (current_points u) (py_int (fmul am points_per_purchase))\<rparr>) d =
        update_users (\<lambda>u. user_id u = user_id row)
          (\<lambda>u. u\<lparr>total_purchases := fadd (total_purchases u) am,
                 total_points := sql_add (total_points u) (py_int (fmul am points_per_purchase)),
                 current_points :=
                   sql_add (current_points u) (py_int (fmul am points_per_purchase))\<rparr>) d"
    using wf_qr_selects_id [OF assms(1,3)] by (intro update_users_cong) simp
  with assms(3,4) show ?thesis
    by (simp add: exec_add_purchase_by_qr update_exact [OF assms(2) fit])
qed

lemma ledger_inv_add_purchase_by_qr:
  assumes "wf lib d" and "ledger_inv d" and "accepted d (Add_purchase_by_qr qr am)"
  shows "ledger_inv (fst (add_purchase_by_qr d qr am))"
proof (cases "get_user_by_qr d qr")
  case None
  with assms(2) show ?thesis by (simp add: exec_add_purchase_by_qr)
next
  case (Some row)
  then have r: "row \<in> set (users d)" "qr_code row = Some qr"
    using select_user_SomeD unfolding get_user_by_qr_def by fastforce+
  then have ex: "user_exists d (user_id row)"
    by (auto simp: user_exists_def)
  show ?thesis
  proof (cases "in_int64 (py_int (fmul am points_per_purchase))")
    case False
    with Some assms(2) show ?thesis by (simp add: exec_add_purchase_by_qr)
  next
    case True
    with assms(3)
    have fit: "fits d (\<lambda>u. qr_code u = Some qr) (py_int (fmul am points_per_purchase))
               (py_int (fmul am points_per_purchase))"
      by simp
    have fit': "fits d (\<lambda>u. user_id u = user_id row) (py_int (fmul am points_per_purchase))
               (py_int (fmul am points_per_purchase))"
      using fit wf_qr_selects_id [OF assms(1) Some] by (auto simp: fits_def)
    have "ledger_inv (insert_transaction (user_id row) Purchase (Some am)
            (py_int (fmul am points_per_purchase)) (Purchase_via_evotor am)
            (update_users (\<lambda>u. user_id u = user_id row)
               (\<lambda>u. u\<lparr>total_purchases := fadd (total_purchases u) am,
                      total_points := total_points u + py_int (fmul am points_per_purchase),
                      current_points := current_points u + py_int (fmul am points_per_purchase)\<rparr>) d))"
      using assms(2) ex fit'
      by (intro ledger_inv_delta) (auto simp: ledger_inv_def fits_def)
    then show ?thesis
      by (simp add: add_purchase_by_qr_exact [OF assms(1,2) Some True assms(3)])
  qed
qed

lemma no_debt_add_purchase_by_qr:
  assumes "wf lib d" and "ledger_inv d" and "no_debt d"
    and "accepted d (Add_purchase_by_qr qr am)" and "0 \<le> am"
  shows "no_debt (fst (add_purchase_by_qr d qr am))"
proof (cases "get_user_by_qr d qr")
  case None
  with assms(3) show ?thesis by (simp add: exec_add_purchase_by_qr)
next
  case (Some row)
  show ?thesis
  proof (cases "in_int64 (py_int (fmul am points_per_purchase))")
    case False
    with Some assms(3) show ?thesis by (simp add: exec_add_purchase_by_qr)
  next
    case True
    have "no_debt (insert_transaction (user_id row) Purchase (Some am)
            (py_int (fmul am points_per_purchase)) (Purchase_via_evotor am)
            (update_users (\<lambda>u. user_id u = user_id row)
               (\<lambda>u. u\<lparr>total_purchases := fadd (total_purchases u) am,
                      total_points := total_points u + py_int (fmul am points_per_purchase),
                      current_points := current_points u + py_int (fmul am points_per_purchase)\<rparr>) d))"
      using assms(3) earned_nonneg [OF assms(5)]
      by (intro no_debt_delta) (auto simp: no_debt_def)
    then show ?thesis
      by (simp add: add_purchase_by_qr_exact [OF assms(1,2) Some True assms(4)])
  qed
qed

lemma add_user_existing:
  assumes "select_user (\<lambda>u. telegram_id u = tid) d = Some ex"
  shows "fst (add_user lib d tid nm ph ge) = d"
  using assms by (simp add: add_user_def)

lemma add_user_fresh:
  assumes "wf lib d" and "select_user (\<lambda>u. telegram_id u = tid) d = None"
  shows "add_user lib d tid nm ph ge =
           (insert_transaction (users_seq d + 1) Bonus None welcome_bonus Registration_bonus
              (d\<lparr>users_seq := users_seq d + 1,
                  users := users d @
                    [\<lparr>user_id = users_seq d + 1, telegram_id = tid, name = nm, phone = ph,
                      gender = ge, total_purchases = 0, total_points = 0,
                      current_points = welcome_bonus,
                      qr_code = Some (generate_qr_code lib (users_seq d + 1)),
                      is_active = True\<rparr>]\<rparr>),
            Inr (users_seq d + 1, generate_qr_code lib (users_seq d + 1)))"
proof -
  have old: "0 \<le> user_id u \<and> user_id u < users_seq d + 1 \<and>
             qr_code u = Some (generate_qr_code lib (user_id u))"
    if "u \<in> set (users d)" for u
    using that assms(1) unfolding wf_def by force
  have seq: "0 \<le> users_seq d + 1"
    using assms(1) unfolding wf_def by simp
  have free: "qr_code u \<noteq> Some (generate_qr_code lib (users_seq d + 1))"
    if "u \<in> set (users d)" for u
  proof
    assume "qr_code u = Some (generate_qr_code lib (users_seq d + 1))"
    with old [OF that] have "generate_qr_code lib (user_id u) = generate_qr_code lib (users_seq d + 1)"
      by simp
    with old [OF that] seq have "user_id u = users_seq d + 1"
      using generate_qr_code_inj by blast
    with old [OF that] show False by simp
  qed
  have other: "user_id u \<noteq> users_seq d + 1" if "u \<in> set (users d)" for u
    using old [OF that] by simp
  have upd: "map (\<lambda>u. if user_id u = users_seq d + 1 then f u else u) (users d) = users d" for f
    using other by (intro map_idI) simp
  show ?thesis
    using assms(2) free
    by (simp add: add_user_def Let_def update_users_def upd)
qed

lemma wf_add_user:
  assumes "wf lib d"
  shows "wf lib (fst (add_user lib d tid nm ph ge))"
proof (cases "select_user (\<lambda>u. telegram_id u = tid) d")
  case (Some ex)
  with assms show ?thesis by (simp add: add_user_existing)
next
  case None
  have zero: "bonus_count d (users_seq d + 1) = 0"
    using assms unfolding wf_def bonus_count_def by (auto simp: filter_empty_conv)
  have bc: "\<And>dd x. bonus_count (dd\<lparr>users := x\<rparr>) = bonus_count dd"
    "\<And>dd x. bonus_count (dd\<lparr>users_seq := x\<rparr>) = bonus_count dd"
    by (simp_all add: bonus_count_def fun_eq_iff)
  show ?thesis
    using assms zero unfolding add_user_fresh [OF assms None] wf_def
    by (auto simp: insert_transaction_fields bonus_count_insert_transaction bc)
qed

lemma ledger_inv_add_user:
  assumes "wf lib d" and "ledger_inv d"
  shows "ledger_inv (fst (add_user lib d tid nm ph ge))"
proof (cases "select_user (\<lambda>u. telegram_id u = tid) d")
  case (Some ex)
  with assms show ?thesis by (simp add: add_user_existing)
next
  case None
  have new: "\<not> user_exists d (users_seq d + 1)"
    using assms(1) unfolding wf_def user_exists_def by auto
  have "t_user_id t \<noteq> users_seq d + 1" if "t \<in> set (transactions d)" for t
    using that new assms(2) unfolding ledger_inv_def by auto
  then have "filter (\<lambda>t. t_user_id t = users_seq d + 1) (transactions d) = []"
    by (simp add: filter_empty_conv)
  then have zero: "ledger_sum d (users_seq d + 1) = 0"
    by (simp add: ledger_sum_def)
  have ls: "\<And>dd x. ledger_sum (dd\<lparr>users := x\<rparr>) = ledger_sum dd"
    "\<And>dd x. ledger_sum (dd\<lparr>users_seq := x\<rparr>) = ledger_sum dd"
    by (simp_all add: ledger_sum_def fun_eq_iff)
  show ?thesis
    using assms(2) zero new unfolding add_user_fresh [OF assms(1) None] ledger_inv_def
    by (auto simp: insert_transaction_fields ledger_sum_insert_transaction ls user_exists_def
        welcome_bonus_def in_int64_def)
qed

lemma no_debt_add_user:
  assumes "wf lib d" and "no_debt d"
  shows "no_debt (fst (add_user lib d tid nm ph ge))"
proof (cases "select_user (\<lambda>u. telegram_id u = tid) d")
  case (Some ex)
  with assms show ?thesis by (simp add: add_user_existing)
next
  case None
  show ?thesis
    using assms(2) unfolding add_user_fresh [OF assms(1) None] no_debt_def
    by (auto simp: insert_transaction_fields welcome_bonus_def)
qed

lemma wf_exec: "wf lib d \<Longrightarrow> wf lib (exec lib d x)"
  by (cases x)
    (simp_all add: wf_add_user wf_add_purchase wf_add_purchase_by_qr wf_spend_points
      wf_update_user_points)

lemma wf_init: "wf lib init_database"
  by (simp add: wf_def init_database_def)

lemma wf_run: "wf lib d \<Longrightarrow> wf lib (run lib d xs)"
  by (induction xs arbitrary: d) (simp_all add: wf_exec)

lemma ledger_inv_exec:
  assumes "wf lib d" and "ledger_inv d" and "accepted d x"
  shows "ledger_inv (exec lib d x)"
proof (cases x)
  case (Add_user tid nm ph ge)
  with assms show ?thesis by (simp add: ledger_inv_add_user)
next
  case (Add_purchase uid am)
  with assms show ?thesis using ledger_inv_add_purchase by simp
next
  case (Add_purchase_by_qr qr am)
  with assms show ?thesis using ledger_inv_add_purchase_by_qr by simp
next
  case (Spend_points uid p pa)
  with assms show ?thesis using ledger_inv_spend_points by simp
next
  case (Update_user_points uid p de)
  with assms show ?thesis using ledger_inv_update_user_points by simp
qed

lemma no_debt_exec:
  assumes "wf lib d" and "ledger_inv d" and "no_debt d" and "accepted d x" and "solvent_call d x"
  shows "no_debt (exec lib d x)"
proof (cases x)
  case (Add_user tid nm ph ge)
  with assms show ?thesis by (simp add: no_debt_add_user)
next
  case (Add_purchase uid am)
  with assms show ?thesis using no_debt_add_purchase by simp
next
  case (Add_purchase_by_qr qr am)
  with assms show ?thesis using no_debt_add_purchase_by_qr by simp
next
  case (Spend_points uid p pa)
  with assms show ?thesis using no_debt_spend_points by simp
next
  case (Update_user_points uid p de)
  with assms show ?thesis using no_debt_update_user_points by simp
qed

lemma ledger_inv_init: "ledger_inv init_database"
  by (simp add: ledger_inv_def init_database_def)

lemma no_debt_init: "no_debt init_database"
  by (simp add: no_debt_def init_database_def)

lemma ledger_inv_run:
  "wf lib d \<Longrightarrow> ledger_inv d \<Longrightarrow> guarded lib d xs \<Longrightarrow> ledger_inv (run lib d xs)"
  by (induction xs arbitrary: d) (simp_all add: wf_exec ledger_inv_exec)

lemma no_debt_run:
  "wf lib d \<Longrightarrow> ledger_inv d \<Longrightarrow> no_debt d \<Longrightarrow> guarded lib d xs \<Longrightarrow> solvent lib d xs \<Longrightarrow>
     no_debt (run lib d xs)"
  by (induction xs arbitrary: d) (simp_all add: wf_exec ledger_inv_exec no_debt_exec)

subsection \<open>The balance invariant\<close>

text \<open>
  Claim C1, as amended. In every database that a history of accepted calls builds from
  the empty one, every account has a balance equal to the sum of \<open>points_change\<close>
  over its transactions and of at most \<open>total_points\<close> plus the registration bonus,
  which \<open>add_user\<close> credits to \<open>current_points\<close> alone; both columns are INTEGERs
  within 64 bits; and if the calls are solvent as well, the balance is not negative.
\<close>

theorem ledger_invariant:
  assumes "guarded lib init_database ops"
    and "u \<in> set (users (run lib init_database ops))"
  shows "current_points u = ledger_sum (run lib init_database ops) (user_id u) \<and>
         current_points u \<le> total_points u + welcome_bonus \<and>
         in_int64 (current_points u) \<and> in_int64 (total_points u) \<and>
         (solvent lib init_database ops \<longrightarrow> 0 \<le> current_points u)"
proof -
  have inv: "ledger_inv (run lib init_database ops)"
    using assms(1) by (simp add: ledger_inv_run wf_init ledger_inv_init)
  have "no_debt (run lib init_database ops)" if "solvent lib init_database ops"
    using assms(1) that by (simp add: no_debt_run wf_init ledger_inv_init no_debt_init)
  with inv assms(2) show ?thesis
    unfolding ledger_inv_def no_debt_def by blast
qed

theorem ledger_invariant_witness:
  "guarded sample_lib init_database shopping_history \<and>
   solvent sample_lib init_database shopping_history \<and>
   users (run sample_lib init_database shopping_history) =
     [anna\<lparr>total_purchases := 1700, total_points := 85, current_points := 115\<rparr>] \<and>
   ledger_sum (run sample_lib init_database shopping_history) 1 = 115 \<and>
   (115::int) \<le> 85 + welcome_bonus \<and> in_int64 115 \<and> in_int64 85 \<and> (0::int) \<le> 115"
proof -
  have g: "guarded sample_lib init_database shopping_history"
    by (simp add: shopping_history_def ledger_eval fl_eval qr1 cong: eval_cong)
  have s: "solvent sample_lib init_database shopping_history"
    by (simp add: shopping_history_def ledger_eval fl_eval qr1 cong: eval_cong)
  have us: "users (run sample_lib init_database shopping_history) =
     [anna\<lparr>total_purchases := 1700, total_points := 85, current_points := 115\<rparr>]"
    by (simp add: shopping_history_def ledger_eval fl_eval qr1 anna_def cong: eval_cong)
  then have m: "anna\<lparr>total_purchases := 1700, total_points := 85, current_points := 115\<rparr>
      \<in> set (users (run sample_lib init_database shopping_history))"
    by simp
  show ?thesis
    using g s us ledger_invariant [OF g m] by (simp add: anna_def)
qed

text \<open>
  The invariant as the specification words it fails on histories of the program: after
  a registration (balance 100, lifetime points 0); after an administrator takes 500
  points from a balance of 100; when \<open>add_purchase\<close> has written a transaction for an
  id that a later registration receives; after a purchase of a negative amount through
  the webhook path; after a negative number of points is spent; and after an
  administrator adds \<open>2^63 - 1\<close> points to a balance of 100, where the column holds
  the REAL \<open>2^63\<close> and the transactions sum to \<open>2^63 + 99\<close>.
\<close>

theorem balance_invariant_counterexample:
  "run sample_lib init_database [Add_user 501 (Some ''Anna'') None None] = db_registered \<and>
   current_points anna = 100 \<and> total_points anna = 0 \<and>
   \<not> balance_invariant db_registered \<and>
   map current_points (users (run sample_lib init_database
     [Add_user 501 (Some ''Anna'') None None, Update_user_points 1 (- 500) ''correction''])) = [- 400] \<and>
   map current_points (users (run sample_lib init_database
     [Add_purchase 1 100, Add_user 501 (Some ''Anna'') None None])) = [100] \<and>
   ledger_sum (run sample_lib init_database
     [Add_purchase 1 100, Add_user 501 (Some ''Anna'') None None]) 1 = 105 \<and>
   map current_points (users (run sample_lib init_database
     [Add_user 501 (Some ''Anna'') None None, Add_purchase_by_qr ''001-c4c'' (- 4000)])) = [- 100] \<and>
   map (\<lambda>u. (current_points u, total_points u)) (users (run sample_lib init_database
     [Add_user 501 (Some ''Anna'') None None, Spend_points 1 (- 50) None])) = [(150, 0)] \<and>
   map current_points (users (run sample_lib init_database
     [Add_user 501 (Some ''Anna'') None None,
      Update_user_points 1 9223372036854775807 ''gift''])) = [9223372036854775808] \<and>
   ledger_sum (run sample_lib init_database
     [Add_user 501 (Some ''Anna'') None None,
      Update_user_points 1 9223372036854775807 ''gift'']) 1 = 9223372036854775907"
  by (simp add: ledger_eval fl_eval qr1 db_registered_def anna_def bonus_row_def balance_invariant_def
      cong: eval_cong)

subsection \<open>Registering twice\<close>

lemma add_user_known:
  assumes "wf lib d" and "select_user (\<lambda>u. telegram_id u = tid) d = Some ex"
  shows "add_user lib d tid nm ph ge = (d, Inr (user_id ex, generate_qr_code lib (user_id ex)))"
proof -
  from assms(2) have "ex \<in> set (users d)"
    using select_user_SomeD by fastforce
  with assms(1) have "qr_code ex = Some (generate_qr_code lib (user_id ex))"
    unfolding wf_def by blast
  with assms(2) show ?thesis
    by (simp add: add_user_def)
qed

lemma find_append_None: "find P xs = None \<Longrightarrow> find P (xs @ ys) = find P ys"
  by (induction xs) (simp_all split: if_splits)

lemma add_user_registers:
  assumes "wf lib d"
  shows "\<exists>row. select_user (\<lambda>u. telegram_id u = tid) (fst (add_user lib d tid nm ph ge)) = Some row \<and>
           snd (add_user lib d tid nm ph ge) = Inr (user_id row, generate_qr_code lib (user_id row))"
proof (cases "select_user (\<lambda>u. telegram_id u = tid) d")
  case (Some ex)
  then show ?thesis
    using add_user_known [OF assms Some] by simp
next
  case None
  then have "find (\<lambda>u. telegram_id u = tid) (users d) = None"
    by (simp add: select_user_def)
  then show ?thesis
    unfolding add_user_fresh [OF assms None]
    by (simp add: select_user_def insert_transaction_fields find_append_None)
qed

text \<open>
  Claim C5. In a database built by any history of calls, two calls of \<open>add_user\<close>
  with the same \<open>telegram_id\<close> return the same result, the \<open>user_id\<close> and code of
  the account that holds the \<open>telegram_id\<close>; the second call leaves the database as
  the first left it; and the account has exactly one bonus transaction.
\<close>

theorem add_user_idempotent:
  assumes "add_user lib (run lib init_database ops) tid nm ph ge = (d1, r1)"
    and "add_user lib d1 tid nm' ph' ge' = (d2, r2)"
  shows "r2 = r1 \<and> d2 = d1 \<and>
         (\<exists>row. select_user (\<lambda>u. telegram_id u = tid) d1 = Some row \<and>
                r1 = Inr (user_id row, generate_qr_code lib (user_id row)) \<and>
                qr_code row = Some (generate_qr_code lib (user_id row)) \<and>
                bonus_count d1 (user_id row) = 1)"
proof -
  have wf0: "wf lib (run lib init_database ops)"
    by (simp add: wf_run wf_init)
  have wf1: "wf lib d1"
    using wf_add_user [OF wf0, of tid nm ph ge] assms(1) by simp
  obtain row where row: "select_user (\<lambda>u. telegram_id u = tid) d1 = Some row"
    and r1: "r1 = Inr (user_id row, generate_qr_code lib (user_id row))"
    using add_user_registers [OF wf0, of tid nm ph ge] assms(1) by auto
  from row have mem: "row \<in> set (users d1)"
    using select_user_SomeD by fastforce
  with wf1 have props: "qr_code row = Some (generate_qr_code lib (user_id row))"
    "bonus_count d1 (user_id row) = 1"
    unfolding wf_def by blast+
  have "add_user lib d1 tid nm' ph' ge' = (d1, r1)"
    using add_user_known [OF wf1 row] r1 by simp
  with assms(2) row r1 props show ?thesis
    by simp
qed

theorem add_user_idempotent_witness:
  "add_user sample_lib (run sample_lib init_database []) 501 (Some ''Anna'') None None =
     (db_registered, Inr (1, ''001-c4c'')) \<and>
   add_user sample_lib db_registered 501 (Some ''Anna'') None None =
     (db_registered, Inr (1, ''001-c4c'')) \<and>
   select_user (\<lambda>u. telegram_id u = 501) db_registered = Some anna \<and>
   bonus_count db_registered 1 = 1"
proof -
  have a: "add_user sample_lib (run sample_lib init_database []) 501 (Some ''Anna'') None None =
     (db_registered, Inr (1, ''001-c4c''))"
    by (simp add: ledger_eval Let_def qr1 db_registered_def anna_def bonus_row_def cong: eval_cong)
  have b: "add_user sample_lib db_registered 501 (Some ''Anna'') None None =
     (db_registered, Inr (1, ''001-c4c''))"
    by (simp add: ledger_eval Let_def qr1 db_registered_def anna_def bonus_row_def cong: eval_cong)
  have c: "select_user (\<lambda>u. telegram_id u = 501) db_registered = Some anna"
    by (simp add: select_user_def db_registered_def anna_def)
  show ?thesis
    using a b c add_user_idempotent [OF a b] by (simp add: anna_def)
qed

subsection \<open>Redeeming more than the balance\<close>

text \<open>
  Claim C2. For an account and a number of points greater than its balance,
  \<open>spend_points\<close> returns the failure \<open>(False, current_points, 0.0)\<close> whatever the
  purchase amount is, so before any clamp, and the database is the one it was given.
\<close>

theorem spend_points_insufficient_balance:
  assumes "select_user (\<lambda>u. user_id u = uid) d = Some row"
    and "current_points row < points_to_spend"
  shows "spend_points d uid points_to_spend purchase_amount =
           (d, Inr (False, current_points row, 0))"
  using assms by (simp add: spend_points_def)

theorem spend_points_insufficient_balance_witness:
  "select_user (\<lambda>u. user_id u = 1) db_registered = Some anna \<and>
   current_points anna < 101 \<and>
   spend_points db_registered 1 101 (Some 1) = (db_registered, Inr (False, 100, 0))"
proof -
  have a: "select_user (\<lambda>u. user_id u = 1) db_registered = Some anna"
    by code_simp
  have b: "current_points anna < 101"
    by code_simp
  show ?thesis
    using a b spend_points_insufficient_balance [OF a b, of "Some 1"] by (simp add: anna_def)
qed

subsection \<open>Earning on a purchase\<close>

lemma settings_are_doubles:
  "fl (5 / 100) = points_per_purchase" "fl (1 / 100) = discount_per_point"
  by (simp_all add: fl_eval)

lemma find_update_same_id:
  assumes "\<And>u. user_id (f u) = user_id u"
  shows "find (\<lambda>u. user_id u = uid) (map (\<lambda>u. if user_id u = uid then f u else u) us) =
           map_option f (find (\<lambda>u. user_id u = uid) us)"
  using assms by (induction us) simp_all

lemma select_user_after_delta:
  assumes "\<And>u. user_id (f u) = user_id u"
  shows "select_user (\<lambda>u. user_id u = uid)
           (insert_transaction uid' ty am pc de (update_users (\<lambda>u. user_id u = uid) f d)) =
         map_option f (select_user (\<lambda>u. user_id u = uid) d)"
  using find_update_same_id [of f uid "users d", OF assms]
  by (simp add: select_user_def insert_transaction_fields update_users_fields)




subsection \<open>The clamp of a redemption\<close>

lemma db_balance_1000_value:
  "db_balance_1000 =
     \<lparr>users = [anna\<lparr>total_points := 900, current_points := 1000\<rparr>],
      transactions =
        [bonus_row,
         \<lparr>transaction_id = 2, t_user_id = 1, t_type = Admin, amount = None,
           points_change = 900, description = Note ''gift''\<rparr>],
      users_seq = 1, transactions_seq = 2\<rparr>"
  by (simp add: db_balance_1000_def ledger_eval in_int64_def sql_add_def Let_def qr1 anna_def
      bonus_row_def cong: eval_cong)


lemma discount_for_capped: "truthy_amount pa \<Longrightarrow> discount_for q pa \<le> of_int max_discount"
  by (simp add: discount_for_def Let_def)

lemma clamp_points_min: "truthy_amount pa \<Longrightarrow> clamp_points p pa mp = min p mp"
  by (simp add: clamp_points_def min_def)

lemma spend_points_accepted:
  assumes "select_user (\<lambda>u. user_id u = uid) d = Some row" and "p \<le> current_points row"
    and "max_points_for_discount pa = Inr mp"
  shows "\<exists>d'. spend_points d uid p pa =
           (d', Inr (True, current_points row - clamp_points p pa mp,
                     discount_for (clamp_points p pa mp) pa)) \<and>
         select_user (\<lambda>u. user_id u = uid) d' =
           Some (row\<lparr>current_points := current_points row - clamp_points p pa mp\<rparr>)"
proof -
  have "select_user (\<lambda>u. user_id u = uid)
          (insert_transaction uid Spend None (- clamp_points p pa mp)
             (Spend_note (clamp_points p pa mp) (discount_for (clamp_points p pa mp) pa))
             (update_users (\<lambda>u. user_id u = uid)
                (\<lambda>u. u\<lparr>current_points := current_points u - clamp_points p pa mp\<rparr>) d)) =
        Some (row\<lparr>current_points := current_points row - clamp_points p pa mp\<rparr>)"
    using assms(1) by (simp add: select_user_after_delta)
  with assms show ?thesis
    by (simp add: spend_points_def Let_def)
qed

lemma spend_points_overflow:
  assumes "select_user (\<lambda>u. user_id u = uid) d = Some row" and "p \<le> current_points row"
    and "max_points_for_discount pa = Inl e"
  shows "spend_points d uid p pa = (d, Inl e)"
  using assms by (simp add: spend_points_def)

lemma max_points_overflow:
  assumes "a \<noteq> 0" and "overflows (a * of_int max_discount)"
  shows "max_points_for_discount (Some a) = Inl OverflowError"
  using assms by (simp add: max_points_for_discount_def fl_eval)

text \<open>
  Claim C3, as amended. For an account, with its id and its balance in the 64-bit range,
  and a purchase amount other than zero: a request above the balance is refused with
  \<open>(False, current_points, 0.0)\<close> and nothing is spent. For a request within the
  balance: where the bound \<open>max_points_for_discount\<close> raises, which it does where
  the amount times \<open>max_discount\<close> leaves the double range, \<open>spend_points\<close> raises the
  same and nothing is spent; where the bound is a number, the call spends the smaller of
  the request and the bound, these points and the new balance being in the 64-bit range,
  and returns the new balance and a discount of at most \<open>max_discount\<close> percent. For a
  purchase of 1000.00 the bound is \<open>int(1000.0 * 50 / 100 / 0.01) = 50000\<close>.
\<close>

theorem spend_points_clamp:
  assumes "select_user (\<lambda>u. user_id u = uid) d = Some row" and "a \<noteq> 0"
    and "in_int64 uid" and "in_int64 (current_points row)"
  shows "(current_points row < p \<longrightarrow>
            spend_points d uid p (Some a) = (d, Inr (False, current_points row, 0))) \<and>
         (\<forall>e. p \<le> current_points row \<and> max_points_for_discount (Some a) = Inl e \<longrightarrow>
            spend_points d uid p (Some a) = (d, Inl e)) \<and>
         (\<forall>mp. p \<le> current_points row \<and> max_points_for_discount (Some a) = Inr mp \<and>
            in_int64 (min p mp) \<and> in_int64 (- min p mp) \<and>
            in_int64 (current_points row - min p mp) \<longrightarrow>
            (\<exists>d'. spend_points d uid p (Some a) =
               (d', Inr (True, current_points row - min p mp,
                         discount_for (min p mp) (Some a))) \<and>
             select_user (\<lambda>u. user_id u = uid) d' =
               Some (row\<lparr>current_points := current_points row - min p mp\<rparr>)) \<and>
            discount_for (min p mp) (Some a) \<le> of_int max_discount) \<and>
         (overflows (a * of_int max_discount) \<longrightarrow>
            max_points_for_discount (Some a) = Inl OverflowError) \<and>
         max_points_for_discount (Some 1000) = Inr 50000"
proof -
  have t: "truthy_amount (Some a)"
    using assms(2) by (simp add: truthy_amount_def)
  have m: "max_points_for_discount (Some 1000) = Inr 50000"
    by (simp add: fl_eval max_points_for_discount_def)
  have refused: "spend_points d uid p (Some a) = (d, Inr (False, current_points row, 0))"
    if "current_points row < p"
    using that assms(1) by (simp add: spend_points_def)
  have raised: "spend_points d uid p (Some a) = (d, Inl e)"
    if "p \<le> current_points row" "max_points_for_discount (Some a) = Inl e" for e
    using spend_points_overflow [OF assms(1) that] .
  have spent: "\<exists>d'. spend_points d uid p (Some a) =
               (d', Inr (True, current_points row - min p mp,
                         discount_for (min p mp) (Some a))) \<and>
             select_user (\<lambda>u. user_id u = uid) d' =
               Some (row\<lparr>current_points := current_points row - min p mp\<rparr>)"
    if "p \<le> current_points row" "max_points_for_discount (Some a) = Inr mp" for mp
    using spend_points_accepted [OF assms(1) that] by (simp add: clamp_points_min [OF t])
  have capped: "discount_for (min p mp) (Some a) \<le> of_int max_discount" for mp
    using discount_for_capped [OF t] .
  have over: "max_points_for_discount (Some a) = Inl OverflowError"
    if "overflows (a * of_int max_discount)"
    using max_points_overflow [OF assms(2) that] .
  from refused raised spent capped over m show ?thesis
    by blast
qed

theorem spend_points_clamp_witness:
  "select_user (\<lambda>u. user_id u = 1) db_balance_1000 =
     Some (anna\<lparr>total_points := 900, current_points := 1000\<rparr>) \<and>
   (1000::rat) \<noteq> 0 \<and> in_int64 1 \<and>
   in_int64 (current_points (anna\<lparr>total_points := 900, current_points := 1000\<rparr>)) \<and>
   spend_points db_balance_1000 1 6000 (Some 1000) = (db_balance_1000, Inr (False, 1000, 0)) \<and>
   max_points_for_discount (Some 10) = Inr 500 \<and>
   in_int64 (min 600 500) \<and> in_int64 (- min 600 500) \<and> in_int64 (1000 - min 600 500) \<and>
   (\<exists>d'. spend_points db_balance_1000 1 600 (Some 10) = (d', Inr (True, 500, 5))) \<and>
   (2 ^ 1023 :: rat) \<noteq> 0 \<and> overflows (2 ^ 1023 * of_int max_discount) \<and>
   max_points_for_discount (Some (2 ^ 1023)) = Inl OverflowError \<and>
   spend_points db_balance_1000 1 600 (Some (2 ^ 1023)) = (db_balance_1000, Inl OverflowError)"
proof -
  have a: "select_user (\<lambda>u. user_id u = 1) db_balance_1000 =
     Some (anna\<lparr>total_points := 900, current_points := 1000\<rparr>)"
    by (simp add: db_balance_1000_value select_user_def anna_def)
  have b: "(1000::rat) \<noteq> 0" "(10::rat) \<noteq> 0" "(2 ^ 1023 :: rat) \<noteq> 0"
    by simp_all
  have r: "in_int64 1"
    "in_int64 (current_points (anna\<lparr>total_points := 900, current_points := 1000\<rparr>))"
    "in_int64 (min 600 500)" "in_int64 (- min 600 500)" "in_int64 (1000 - min 600 500)"
    by (simp_all add: in_int64_def)
  have le: "(600::int) \<le> current_points (anna\<lparr>total_points := 900, current_points := 1000\<rparr>)"
    by simp
  have m: "max_points_for_discount (Some 10) = Inr 500"
    by (simp add: fl_eval max_points_for_discount_def)
  have dv: "discount_for 500 (Some 10) = 5"
    by (simp add: fl_eval discount_for_def truthy_amount_def)
  have o: "overflows (2 ^ 1023 * of_int max_discount)"
    by (simp add: overflows_def max_discount_def)
  have refused: "spend_points db_balance_1000 1 6000 (Some 1000) =
      (db_balance_1000, Inr (False, 1000, 0))"
    using spend_points_clamp [OF a b(1) r(1) r(2), of 6000] by simp
  have "\<exists>d'. spend_points db_balance_1000 1 600 (Some 10) =
      (d', Inr (True, 1000 - min 600 500, discount_for (min 600 500) (Some 10)))"
    using spend_points_clamp [OF a b(2) r(1) r(2), of 600] m r le by auto
  then have clamped: "\<exists>d'. spend_points db_balance_1000 1 600 (Some 10) = (d', Inr (True, 500, 5))"
    by (simp add: dv)
  have e: "max_points_for_discount (Some (2 ^ 1023)) = Inl OverflowError"
    using spend_points_clamp [OF a b(3) r(1) r(2), of 600] o by blast
  have raised: "spend_points db_balance_1000 1 600 (Some (2 ^ 1023)) =
      (db_balance_1000, Inl OverflowError)"
    using spend_points_clamp [OF a b(3) r(1) r(2), of 600] e le by blast
  from a b(1) b(3) r refused m clamped o e raised show ?thesis
    by blast
qed

text \<open>
  The example of the claim on the code: with a balance of 1000, a request for 6000 points
  against a purchase of 1000.00 is refused and spends nothing, and the bound is 50000.
\<close>

theorem redeem_clamp_counterexample:
  "select_user (\<lambda>u. user_id u = 1) db_balance_1000 =
     Some (anna\<lparr>total_points := 900, current_points := 1000\<rparr>) \<and>
   spend_points db_balance_1000 1 6000 (Some 1000) = (db_balance_1000, Inr (False, 1000, 0)) \<and>
   max_points_for_discount (Some 1000) = Inr 50000"
  by (simp add: db_balance_1000_value ledger_eval fl_eval anna_def bonus_row_def cong: eval_cong)

subsection \<open>Redeeming without a purchase amount\<close>







subsection \<open>A purchase for an account that is not there\<close>

lemma get_user_by_qr_none:
  assumes "\<forall>u \<in> set (users d). qr_code u = Some qr \<longrightarrow> \<not> is_active u"
  shows "get_user_by_qr d qr = None"
proof -
  from assms have "\<forall>u \<in> set (users d). \<not> (qr_code u = Some qr \<and> is_active u)"
    by blast
  then show ?thesis
    by (simp add: get_user_by_qr_def select_user_None_iff)
qed

text \<open>
  Claim C6, as amended. \<open>add_purchase_by_qr\<close>, the operation a payload of the terminal
  reaches, looks the account up first: where no account has the code, or the account
  that has it is inactive, it returns \<open>None\<close>, appends no transaction and changes no
  account.
\<close>

theorem add_purchase_by_qr_not_found:
  assumes "\<forall>u \<in> set (users d). qr_code u = Some qr \<longrightarrow> \<not> is_active u"
  shows "add_purchase_by_qr d qr am = (d, Inr None)"
  using get_user_by_qr_none [OF assms] by (simp add: add_purchase_by_qr_def)

theorem add_purchase_by_qr_not_found_witness:
  "users db_registered = [anna] \<and> qr_code anna \<noteq> Some ''002-c81'' \<and>
   add_purchase_by_qr db_registered ''002-c81'' 100 = (db_registered, Inr None) \<and>
   users db_inactive = [anna\<lparr>is_active := False\<rparr>] \<and>
   qr_code (anna\<lparr>is_active := False\<rparr>) = Some ''001-c4c'' \<and>
   \<not> is_active (anna\<lparr>is_active := False\<rparr>) \<and>
   add_purchase_by_qr db_inactive ''001-c4c'' 100 = (db_inactive, Inr None) \<and>
   (\<exists>d'. add_purchase_by_qr db_registered ''001-c4c'' 100 =
           (d', Inr (Some (telegram_id anna, 5, 105))))"
proof -
  have us: "users db_registered = [anna]" "qr_code anna \<noteq> Some ''002-c81''"
    "users db_inactive = [anna\<lparr>is_active := False\<rparr>]"
    "qr_code (anna\<lparr>is_active := False\<rparr>) = Some ''001-c4c''"
    "\<not> is_active (anna\<lparr>is_active := False\<rparr>)"
    by (simp_all add: db_inactive_def db_registered_def anna_def)
  have a: "\<forall>u \<in> set (users db_registered). qr_code u = Some ''002-c81'' \<longrightarrow> \<not> is_active u"
    using us by simp
  have b: "\<forall>u \<in> set (users db_inactive). qr_code u = Some ''001-c4c'' \<longrightarrow> \<not> is_active u"
    using us by simp
  have e: "\<exists>d'. add_purchase_by_qr db_registered ''001-c4c'' 100 =
           (d', Inr (Some (telegram_id anna, 5, 105)))"
    by (simp add: ledger_eval fl_eval db_registered_def anna_def bonus_row_def cong: eval_cong)
  show ?thesis
    using us e add_purchase_by_qr_not_found [OF a, of 100]
      add_purchase_by_qr_not_found [OF b, of 100]
    by blast
qed

text \<open>
  The claim on \<open>add_purchase\<close>, which makes no look-up: where no row has the
  \<open>user_id\<close> it appends a transaction row all the same, commits, and raises TypeError
  when it reads the new balance; and it credits an account whose \<open>is_active\<close> is
  false. Its one caller passes the \<open>user_id\<close> of a row that \<open>get_user_info\<close> has just
  read, with \<open>is_active = 1\<close>.
\<close>

theorem add_purchase_not_found_counterexample:
  "select_user (\<lambda>u. user_id u = 1) init_database = None \<and>
   add_purchase init_database 1 100 =
     (\<lparr>users = [],
       transactions =
         [\<lparr>transaction_id = 1, t_user_id = 1, t_type = Purchase, amount = Some 100,
           points_change = 5, description = Purchase_note 100\<rparr>],
       users_seq = 0, transactions_seq = 1\<rparr>,
      Inl TypeError) \<and>
   \<not> is_active (anna\<lparr>is_active := False\<rparr>) \<and>
   add_purchase db_inactive 1 100 =
     (insert_transaction 1 Purchase (Some 100) 5 (Purchase_note 100)
        (db_registered\<lparr>users := [anna\<lparr>is_active := False, total_purchases := 100,
                                         total_points := 5, current_points := 105\<rparr>]\<rparr>),
      Inr (5, 105))"
  by (simp add: ledger_eval fl_eval db_inactive_def db_registered_def anna_def bonus_row_def
      cong: eval_cong)

subsection \<open>What the webhook answers\<close>

lemma webhook_ignored:
  assumes "extract_fields data = Inr (code, tot)" and "\<not> truthy code \<or> \<not> truthy tot"
  shows "evotor_webhook lib d data = (d, Ignored ''Missing QR code or total'')"
  using assms by (auto simp: evotor_webhook_def)

lemma webhook_invalid_total:
  assumes "extract_fields data = Inr (code, tot)" and "truthy code" and "truthy tot"
    and "py_float lib tot = None"
  shows "evotor_webhook lib d data = (d, Error_response ''Invalid total format'')"
  using assms by (simp add: evotor_webhook_def)

lemmas webhook_eval =
  evotor_webhook_def extract_fields_def find_receipt_def find_total_def find_extra_def
  find_qr_code_def get_or_def sample_lib_def sample_float_of_str_def

text \<open>
  Claim C4, as amended. For a payload on which the look-ups of the handler do not raise:
  where the amount or the code is not found, or is found with a false truth value, the
  handler returns the status \<open>ignored\<close> with the message \<open>Missing QR code or total\<close>;
  where both are found and \<open>float\<close> rejects the amount (a string that is no number,
  an integer beyond the double range, a list, an object), it returns the status
  \<open>error\<close> with the message \<open>Invalid total format\<close>. The ledger is the same after
  both.
\<close>

theorem webhook_missing_or_invalid:
  assumes "extract_fields data = Inr (code, tot)"
  shows "(\<not> truthy code \<or> \<not> truthy tot \<longrightarrow>
            evotor_webhook lib d data = (d, Ignored ''Missing QR code or total'')) \<and>
         (truthy code \<and> truthy tot \<and> py_float lib tot = None \<longrightarrow>
            evotor_webhook lib d data = (d, Error_response ''Invalid total format'')) \<and>
         status (Ignored ''Missing QR code or total'') = ''ignored'' \<and>
         status (Error_response ''Invalid total format'') = ''error''"
  using webhook_ignored [OF assms] webhook_invalid_total [OF assms] by simp

theorem webhook_missing_or_invalid_witness:
  "extract_fields (JObj [(''type'', JStr ''OPEN_SESSION'')]) = Inr (JNull, JNull) \<and>
   evotor_webhook sample_lib db_registered (JObj [(''type'', JStr ''OPEN_SESSION'')]) =
     (db_registered, Ignored ''Missing QR code or total'') \<and>
   extract_fields (JObj [(''total'', JStr ''abc''), (''clientCode'', JStr ''001-c4c'')]) =
     Inr (JStr ''001-c4c'', JStr ''abc'') \<and>
   py_float sample_lib (JStr ''abc'') = None \<and>
   evotor_webhook sample_lib db_registered
       (JObj [(''total'', JStr ''abc''), (''clientCode'', JStr ''001-c4c'')]) =
     (db_registered, Error_response ''Invalid total format'') \<and>
   extract_fields (JObj [(''total'', JInt (2 ^ 1024)), (''clientCode'', JStr ''001-c4c'')]) =
     Inr (JStr ''001-c4c'', JInt (2 ^ 1024)) \<and>
   truthy (JStr ''001-c4c'') \<and> truthy (JInt (2 ^ 1024)) \<and>
   py_float sample_lib (JInt (2 ^ 1024)) = None \<and>
   evotor_webhook sample_lib db_registered
       (JObj [(''total'', JInt (2 ^ 1024)), (''clientCode'', JStr ''001-c4c'')]) =
     (db_registered, Error_response ''Invalid total format'')"
proof -
  have a: "extract_fields (JObj [(''type'', JStr ''OPEN_SESSION'')]) = Inr (JNull, JNull)"
    by (simp add: webhook_eval cong: eval_cong)
  have b: "extract_fields (JObj [(''total'', JStr ''abc''), (''clientCode'', JStr ''001-c4c'')]) =
     Inr (JStr ''001-c4c'', JStr ''abc'')"
    by (simp add: webhook_eval cong: eval_cong)
  have c: "py_float sample_lib (JStr ''abc'') = None"
    by (simp add: sample_lib_def sample_float_of_str_def)
  have e: "extract_fields (JObj [(''total'', JInt (2 ^ 1024)), (''clientCode'', JStr ''001-c4c'')]) =
     Inr (JStr ''001-c4c'', JInt (2 ^ 1024))"
    by (simp add: webhook_eval cong: eval_cong)
  have t: "truthy (JStr ''001-c4c'')" "truthy (JInt (2 ^ 1024))"
    by simp_all
  have f: "py_float sample_lib (JInt (2 ^ 1024)) = None"
    by (simp add: overflows_def)
  show ?thesis
    using a b c e t f webhook_missing_or_invalid [OF a, of sample_lib db_registered]
      webhook_missing_or_invalid [OF b, of sample_lib db_registered]
      webhook_missing_or_invalid [OF e, of sample_lib db_registered]
    by simp
qed

text \<open>
  The handler on payloads of the claim: an amount that \<open>float\<close> rejects gives the
  status \<open>error\<close>, and so does a payload with no amount whose \<open>extra\<close> member is a
  string, on which \<open>.get\<close> raises AttributeError.
\<close>

theorem webhook_ignored_counterexample:
  "evotor_webhook sample_lib db_registered
       (JObj [(''total'', JStr ''abc''), (''clientCode'', JStr ''001-c4c'')]) =
     (db_registered, Error_response ''Invalid total format'') \<and>
   status (Error_response ''Invalid total format'') = ''error'' \<and>
   evotor_webhook sample_lib db_registered (JObj [(''extra'', JStr ''x'')]) =
     (db_registered, Exception_response AttributeError) \<and>
   status (Exception_response AttributeError) = ''error''"
  by (simp add: webhook_eval cong: eval_cong)

text \<open>
  Claim C10, as amended. For a payload on which the look-ups of the handler do not raise
  and whose amount has a false truth value (zero, or a zero under \<open>total\<close> or \<open>sum\<close>,
  which the \<open>or\<close> chain passes over), the handler returns the status \<open>ignored\<close> and
  the ledger is the one it was given: no purchase of zero is recorded.
\<close>

theorem webhook_zero_total:
  assumes "extract_fields data = Inr (code, tot)" and "\<not> truthy tot"
  shows "evotor_webhook lib d data = (d, Ignored ''Missing QR code or total'') \<and>
         fst (evotor_webhook lib d data) = d \<and>
         status (snd (evotor_webhook lib d data)) = ''ignored''"
  using webhook_ignored [OF assms(1), of lib d] assms(2) by simp

theorem webhook_zero_total_witness:
  "extract_fields (JObj [(''amount'', JInt 0), (''clientCode'', JStr ''001-c4c'')]) =
     Inr (JStr ''001-c4c'', JInt 0) \<and>
   \<not> truthy (JInt 0) \<and>
   evotor_webhook sample_lib db_registered
       (JObj [(''amount'', JInt 0), (''clientCode'', JStr ''001-c4c'')]) =
     (db_registered, Ignored ''Missing QR code or total'') \<and>
   extract_fields (JObj [(''total'', JFloat 0), (''extra'', JObj [(''clientCode'', JStr ''001-c4c'')])]) =
     Inr (JStr ''001-c4c'', JNull) \<and>
   evotor_webhook sample_lib db_registered
       (JObj [(''total'', JFloat 0), (''extra'', JObj [(''clientCode'', JStr ''001-c4c'')])]) =
     (db_registered, Ignored ''Missing QR code or total'')"
proof -
  have a: "extract_fields (JObj [(''amount'', JInt 0), (''clientCode'', JStr ''001-c4c'')]) =
     Inr (JStr ''001-c4c'', JInt 0)"
    by (simp add: webhook_eval cong: eval_cong)
  have b: "\<not> truthy (JInt 0)" "\<not> truthy JNull"
    by simp_all
  have c: "extract_fields (JObj [(''total'', JFloat 0), (''extra'', JObj [(''clientCode'', JStr ''001-c4c'')])]) =
     Inr (JStr ''001-c4c'', JNull)"
    by (simp add: webhook_eval cong: eval_cong)
  show ?thesis
    using a b c webhook_zero_total [OF a b(1), of sample_lib db_registered]
      webhook_zero_total [OF c b(2), of sample_lib db_registered]
    by simp
qed

text \<open>
  A payload with the amount 0 whose \<open>extra\<close> member is a string: the look-up of the
  code raises, and the status is \<open>error\<close>.
\<close>

theorem webhook_zero_total_counterexample:
  "find_receipt (JObj [(''amount'', JInt 0), (''extra'', JStr ''x'')]) =
     Inr (JObj [(''amount'', JInt 0), (''extra'', JStr ''x'')]) \<and>
   find_total (JObj [(''amount'', JInt 0), (''extra'', JStr ''x'')]) = Inr (JInt 0) \<and>
   evotor_webhook sample_lib db_registered (JObj [(''amount'', JInt 0), (''extra'', JStr ''x'')]) =
     (db_registered, Exception_response AttributeError) \<and>
   status (Exception_response AttributeError) = ''error''"
  by (simp add: webhook_eval cong: eval_cong)

text \<open>The handler on a payload it accepts, with the fields under their other names.\<close>

lemma webhook_accepts:
  "evotor_webhook sample_lib db_registered
       (JObj [(''sum'', JStr ''1500''),
              (''additional'', JObj [(''qrCode'', JStr ''001-c4c'')])]) =
     (insert_transaction 1 Purchase (Some 1500) 75 (Purchase_via_evotor 1500)
        (db_registered\<lparr>users := [anna\<lparr>total_purchases := 1500, total_points := 75,
                                         current_points := 175\<rparr>]\<rparr>),
      Ok_response 75 175)"
  by (simp add: webhook_eval ledger_eval fl_eval db_registered_def anna_def bonus_row_def
      cong: eval_cong)

end
